theory Spec2Isabelle
  imports Complex_Main "HOL-Library.Sublist"
begin

text \<open>
  A model of the extraction and classification engine of the bill scanner: amount
  extraction and due-date extraction (\<open>LocalizedParser\<close>), bill-type classification,
  company extraction and confidence calibration (\<open>AIBillClassifier\<close>).

  Conventions of the model. JavaScript numbers are rationals, every finite double being
  one; NaN is \<open>None\<close> where the source can produce it. The scores of the classifier
  are computed as the source computes them, every operation rounded to a double (section
  on double-precision arithmetic). Amounts and the calibration are taken exactly, a
  decimal literal standing for its decimal value. An optional value is an \<open>option\<close>. A lookup in a table
  object is a lookup among the keys the table declares. The device locale, which the
  source reads from the platform, is an argument.
\<close>

section \<open>Strings and regular expressions of the host language\<close>

text \<open>
  A JavaScript string is a sequence of UTF-16 code units, modelled as a list of integers.
  \<open>S\<close> turns an ASCII literal into such a list; code units beyond ASCII are written
  as numbers (for example 8364 for the euro sign).
\<close>

type_synonym jsstring = "int list"

abbreviation (input) S :: "string \<Rightarrow> jsstring" where
  "S s \<equiv> map of_char s"

text \<open>\<open>String.prototype.includes\<close>: the argument occurs as a contiguous substring.\<close>

fun str_includes :: "jsstring \<Rightarrow> jsstring \<Rightarrow> bool" where
  "str_includes [] k = (k = [])"
| "str_includes (x # t) k = (prefix k (x # t) \<or> str_includes t k)"

text \<open>
  Regular expressions without the \<open>u\<close> flag work on code units. The abstract syntax
  covers what the patterns of the repository use: classes and negated classes (as lists of
  inclusive ranges), a literal under the \<open>i\<close> flag (\<open>CharI k\<close> matches a code unit
  whose canonical form is \<open>k\<close>; \<open>rx_liti\<close> builds it), the end anchor, concatenation,
  alternation, the greedy star, and capture groups. Bounded repetition and the optional
  are unfolded into these by \<open>rep\<close>, \<open>upto\<close> and \<open>opt\<close> below.
\<close>

datatype regex =
    Chars "(int \<times> int) list"
  | NotChars "(int \<times> int) list"
  | CharI int
  | Eps
  | Eos
  | Cat regex regex
  | Alt regex regex
  | Star regex
  | Grp nat regex

type_synonym caps = "(nat \<times> jsstring) list"

definition in_ranges :: "int \<Rightarrow> (int \<times> int) list \<Rightarrow> bool" where
  "in_ranges x rs = list_ex (\<lambda>r. fst r \<le> x \<and> x \<le> snd r) rs"

text \<open>
  \<open>toUpperCase\<close> and \<open>toLowerCase\<close> on one code unit, for Basic Latin, the Latin-1
  Supplement, Latin Extended-A and the Kelvin and Angstrom signs; every other code unit is
  left as it is. Capital I with dot above (304) lower-cases to two code units. The sharp s
  (223) upper-cases to two code units.
\<close>

definition lowerUnit :: "int \<Rightarrow> jsstring" where
  "lowerUnit c =
     (if c < 192 then (if 65 \<le> c \<and> c \<le> 90 then [c + 32] else [c])
      else if c \<le> 222 then (if c = 215 then [c] else [c + 32])
      else if c < 256 then [c]
      else if c \<le> 382 then
        (if c = 304 then [105, 775]
         else if c = 376 then [255]
         else if (c \<le> 303 \<or> 306 \<le> c \<and> c \<le> 311 \<or> 330 \<le> c \<and> c \<le> 375) \<and> even c
           then [c + 1]
         else if (313 \<le> c \<and> c \<le> 328 \<or> 377 \<le> c) \<and> odd c then [c + 1]
         else [c])
      else if c = 8490 then [107]
      else if c = 8491 then [229]
      else [c])"

definition upperUnit :: "int \<Rightarrow> jsstring" where
  "upperUnit c =
     (if c < 181 then (if 97 \<le> c \<and> c \<le> 122 then [c - 32] else [c])
      else if c = 181 then [924]
      else if c < 223 then [c]
      else if c = 223 then [83, 83]
      else if c < 255 then (if c = 247 then [c] else [c - 32])
      else if c = 255 then [376]
      else if c \<le> 383 then
        (if c = 305 then [73]
         else if c = 383 then [83]
         else if (257 \<le> c \<and> c \<le> 303 \<or> 307 \<le> c \<and> c \<le> 311 \<or> 331 \<le> c \<and> c \<le> 375)
                 \<and> odd c
           then [c - 1]
         else if (314 \<le> c \<and> c \<le> 328 \<or> 378 \<le> c \<and> c \<le> 382) \<and> even c then [c - 1]
         else [c])
      else [c])"

definition toLowerCase :: "jsstring \<Rightarrow> jsstring" where
  "toLowerCase s = concat (map lowerUnit s)"

text \<open>
  Canonicalize of the language standard, for a pattern with the \<open>i\<close> flag and without
  the \<open>u\<close> flag: the upper-case form when it is one code unit, except that a code unit
  from 128 on never maps into ASCII.
\<close>

definition canonicalize :: "int \<Rightarrow> int" where
  "canonicalize c =
     (case upperUnit c of
        [cu] \<Rightarrow> if 128 \<le> c \<and> cu < 128 then c else cu
      | _ \<Rightarrow> c)"

text \<open>
  The backtracking matcher: \<open>rmatch r s c\<close> lists, in the order in which backtracking
  tries them, the ways \<open>r\<close> matches a prefix of \<open>s\<close>, each as the rest of the input
  and the captures. The head of the list is the match the engine reports. An iteration
  of a star that consumes nothing is not continued.
\<close>

fun rmatch :: "regex \<Rightarrow> jsstring \<Rightarrow> caps \<Rightarrow> (jsstring \<times> caps) list" where
  "rmatch (Chars rs) s c =
     (case s of [] \<Rightarrow> [] | x # t \<Rightarrow> if in_ranges x rs then [(t, c)] else [])"
| "rmatch (NotChars rs) s c =
     (case s of [] \<Rightarrow> [] | x # t \<Rightarrow> if in_ranges x rs then [] else [(t, c)])"
| "rmatch (CharI k) s c =
     (case s of [] \<Rightarrow> [] | x # t \<Rightarrow> if canonicalize x = k then [(t, c)] else [])"
| "rmatch Eps s c = [(s, c)]"
| "rmatch Eos s c = (if s = [] then [(s, c)] else [])"
| "rmatch (Cat a b) s c = concat (map (\<lambda>p. rmatch b (fst p) (snd p)) (rmatch a s c))"
| "rmatch (Alt a b) s c = rmatch a s c @ rmatch b s c"
| "rmatch (Star r) s c =
     concat (map (\<lambda>p. rmatch (Star r) (fst p) (snd p))
                 (filter (\<lambda>p. length (fst p) < length s) (rmatch r s c))) @ [(s, c)]"
| "rmatch (Grp n r) s c =
     map (\<lambda>p. (fst p, (n, take (length s - length (fst p)) s) # snd p)) (rmatch r s c)"

declare rmatch.simps(8) [simp del]

text \<open>\<open>RegExp.prototype.test\<close> for a pattern without the \<open>g\<close> flag.\<close>

fun rx_test :: "regex \<Rightarrow> jsstring \<Rightarrow> bool" where
  "rx_test r [] = (rmatch r [] [] \<noteq> [])"
| "rx_test r (x # t) = (rmatch r (x # t) [] \<noteq> [] \<or> rx_test r t)"

text \<open>
  One element of \<open>String.prototype.matchAll\<close>: the index of the match, the matched
  substring (\<open>match[0]\<close>) and the captures (\<open>match[n]\<close> is \<open>grp m n\<close>, absent when the
  group took no part).
\<close>

record rxmatch =
  m_index :: nat
  m_full :: jsstring
  m_caps :: caps

definition grp :: "rxmatch \<Rightarrow> nat \<Rightarrow> jsstring option" where
  "grp m n = map_of (m_caps m) n"

text \<open>
  \<open>matchAll\<close> with the \<open>g\<close> flag: search from the last index for the first position
  where the pattern matches, continue behind the match (one further when it is empty).
\<close>

function matchAllFrom :: "regex \<Rightarrow> jsstring \<Rightarrow> nat \<Rightarrow> rxmatch list" where
  "matchAllFrom r text pos =
     (if length text < pos then []
      else case rmatch r (drop pos text) [] of
             [] \<Rightarrow> matchAllFrom r text (pos + 1)
           | p # _ \<Rightarrow>
               (let e = length text - length (fst p) in
                \<lparr>m_index = pos, m_full = take (e - pos) (drop pos text), m_caps = snd p\<rparr>
                  # matchAllFrom r text (if pos < e then e else pos + 1)))"
  by pat_completeness auto
termination
  by (relation "measure (\<lambda>(r, text, pos). length text + 1 - pos)") auto

declare matchAllFrom.simps [simp del]

definition matchAll :: "regex \<Rightarrow> jsstring \<Rightarrow> rxmatch list" where
  "matchAll r text = matchAllFrom r text 0"

subsection \<open>Pattern combinators\<close>

definition rx_chr :: "int \<Rightarrow> regex" where
  "rx_chr c = Chars [(c, c)]"

definition rx_digit :: regex where
  "rx_digit = Chars [(48, 57)]"

text \<open>The class \<open>\s\<close>: white space and line terminators.\<close>

definition space_ranges :: "(int \<times> int) list" where
  "space_ranges = [(9, 13), (32, 32), (160, 160), (5760, 5760), (8192, 8202), (8232, 8233),
     (8239, 8239), (8287, 8287), (12288, 12288), (65279, 65279)]"

text \<open>The class \<open>\w\<close>: ASCII letters, digits and the underscore.\<close>

definition word_ranges :: "(int \<times> int) list" where
  "word_ranges = [(48, 57), (65, 90), (95, 95), (97, 122)]"

definition rx_space :: regex where
  "rx_space = Chars space_ranges"

text \<open>The dot: any code unit but a line terminator.\<close>

definition rx_dot :: regex where
  "rx_dot = NotChars [(10, 10), (13, 13), (8232, 8233)]"

definition rx_opt :: "regex \<Rightarrow> regex" where
  "rx_opt r = Alt r Eps"

fun rx_seq :: "regex list \<Rightarrow> regex" where
  "rx_seq [] = Eps"
| "rx_seq [r] = r"
| "rx_seq (r # rs) = Cat r (rx_seq rs)"

fun rx_alts :: "regex list \<Rightarrow> regex" where
  "rx_alts [] = Chars []"
| "rx_alts [r] = r"
| "rx_alts (r # rs) = Alt r (rx_alts rs)"

definition rx_lit :: "jsstring \<Rightarrow> regex" where
  "rx_lit s = rx_seq (map rx_chr s)"

definition rx_liti :: "jsstring \<Rightarrow> regex" where
  "rx_liti s = rx_seq (map (\<lambda>c. CharI (canonicalize c)) s)"

fun rx_times :: "nat \<Rightarrow> regex \<Rightarrow> regex" where
  "rx_times 0 r = Eps"
| "rx_times (Suc n) r = (if n = 0 then r else Cat r (rx_times n r))"

fun rx_upto :: "nat \<Rightarrow> regex \<Rightarrow> regex" where
  "rx_upto 0 r = Eps"
| "rx_upto (Suc n) r = rx_opt (if n = 0 then r else Cat r (rx_upto n r))"

text \<open>Greedy \<open>r{lo,hi}\<close>.\<close>

definition rx_rep :: "nat \<Rightarrow> nat \<Rightarrow> regex \<Rightarrow> regex" where
  "rx_rep lo hi r = (if hi = lo then rx_times lo r else Cat (rx_times lo r) (rx_upto (hi - lo) r))"

section \<open>Amount extraction (LocalizedParser)\<close>

datatype Currency = USD | EUR | GBP | TRY | CAD | AUD | JPY | CHF | SEK | NOK

text \<open>\<open>Object.values(Currency)\<close>: the members in declaration order.\<close>

definition Currency_values :: "Currency list" where
  "Currency_values = [USD, EUR, GBP, TRY, CAD, AUD, JPY, CHF, SEK, NOK]"

record Amount =
  a_value :: rat
  a_currency :: Currency
  a_raw :: jsstring

text \<open>The optional \<open>hint\<close> argument of \<open>parseAmountAdvanced\<close>.\<close>

record Hint =
  h_currency :: "Currency option"
  h_country :: "jsstring option"

text \<open>The first entry of \<open>RNLocalize.getLocales()\<close>, supplied by the device.\<close>

record Locale =
  l_languageCode :: jsstring
  l_countryCode :: jsstring

definition isDigit :: "int \<Rightarrow> bool" where
  "isDigit c = (48 \<le> c \<and> c \<le> 57)"

definition digits_val :: "jsstring \<Rightarrow> int" where
  "digits_val ds = foldl (\<lambda>a d. 10 * a + (d - 48)) 0 ds"

text \<open>
  \<open>parseFloat\<close> on the strings \<open>parseNumericAmount\<close> passes to it, which consist of
  digits, periods and commas only (so sign, exponent and leading white space do not
  occur): the longest prefix of the shape digits, period, digits is read; \<open>None\<close> is
  NaN, returned when that prefix holds no digit.
\<close>

definition parseFloat :: "jsstring \<Rightarrow> rat option" where
  "parseFloat s =
     (let ip = takeWhile isDigit s;
          r = dropWhile isDigit s;
          fp = (case r of [] \<Rightarrow> [] | x # t \<Rightarrow> if x = 46 then takeWhile isDigit t else [])
      in if ip = [] \<and> fp = [] then None
         else Some (of_int (digits_val ip) + of_int (digits_val fp) / 10 ^ length fp))"

text \<open>\<open>str.replace(a, b)\<close> with string arguments of one code unit: the first occurrence.\<close>

fun replaceFirst :: "int \<Rightarrow> int \<Rightarrow> jsstring \<Rightarrow> jsstring" where
  "replaceFirst a b [] = []"
| "replaceFirst a b (x # t) = (if x = a then b # t else x # replaceFirst a b t)"

text \<open>The two suffix tests of the automatic mode: \<open>/,\d{2}$/\<close> and \<open>/\.\d{2}$/\<close>.\<close>

definition comma2_end :: regex where
  "comma2_end = rx_seq [rx_chr 44, rx_times 2 rx_digit, Eos]"

definition period2_end :: regex where
  "period2_end = rx_seq [rx_chr 46, rx_times 2 rx_digit, Eos]"

definition parseNumericAmount :: "jsstring \<Rightarrow> jsstring \<Rightarrow> rat option" where
  "parseNumericAmount amountStr locale =
     (let cleanAmount = filter (\<lambda>c. isDigit c \<or> c = 46 \<or> c = 44) amountStr in
      if locale = S ''auto'' then
        (if rx_test comma2_end cleanAmount
           then parseFloat (replaceFirst 44 46 (filter (\<lambda>c. c \<noteq> 46) cleanAmount))
         else if rx_test period2_end cleanAmount
           then parseFloat (filter (\<lambda>c. c \<noteq> 44) cleanAmount)
         else parseFloat (filter (\<lambda>c. c \<noteq> 44) cleanAmount))
      else if str_includes locale (S ''DE'') \<or> str_includes locale (S ''TR'')
        then parseFloat (replaceFirst 44 46 (filter (\<lambda>c. c \<noteq> 46) cleanAmount))
      else parseFloat (filter (\<lambda>c. c \<noteq> 44) cleanAmount))"

text \<open>
  Two notions used to state how a digit string is read. \<open>ends_sep2 k s\<close>: the string
  ends in the separator \<open>k\<close> followed by exactly two digits. \<open>decimal_reading ip fp\<close>:
  the number whose integer part is the digits of \<open>ip\<close>, its separators dropped, and
  whose fraction digits are \<open>fp\<close>.
\<close>

definition ends_sep2 :: "int \<Rightarrow> jsstring \<Rightarrow> bool" where
  "ends_sep2 k s =
     (case rev s of d2 # d1 # k' # _ \<Rightarrow> k' = k \<and> isDigit d1 \<and> isDigit d2 | _ \<Rightarrow> False)"

definition decimal_reading :: "jsstring \<Rightarrow> jsstring \<Rightarrow> rat" where
  "decimal_reading ip fp =
     of_int (digits_val (filter isDigit ip)) + of_int (digits_val fp) / 10 ^ length fp"

text \<open>
  The resolution rule as the specification words it, for comparison: the two suffix
  rules, and otherwise the convention of the locale.
\<close>

datatype convention = CommaDecimal | PeriodDecimal

definition spec_resolve :: "convention \<Rightarrow> jsstring \<Rightarrow> rat option" where
  "spec_resolve conv s =
     (if ends_sep2 44 s \<or> ends_sep2 46 s
        then Some (decimal_reading (take (length s - 3) s) (drop (length s - 2) s))
      else
        (let dec = (case conv of CommaDecimal \<Rightarrow> 44 | PeriodDecimal \<Rightarrow> 46);
             ip = takeWhile (\<lambda>c. c \<noteq> dec) s;
             fp = takeWhile isDigit (drop 1 (dropWhile (\<lambda>c. c \<noteq> dec) s))
         in if filter isDigit ip = [] \<and> fp = [] then None else Some (decimal_reading ip fp)))"

text \<open>\<open>a || b\<close> on optional strings: the left one unless it is absent or empty.\<close>

definition orElse :: "jsstring option \<Rightarrow> jsstring \<Rightarrow> jsstring" where
  "orElse a b = (case a of None \<Rightarrow> b | Some x \<Rightarrow> if x = [] then b else x)"

text \<open>\<open>numericAmount > maxAmount\<close>, false when the left side is NaN.\<close>

definition gt_num :: "rat option \<Rightarrow> rat \<Rightarrow> bool" where
  "gt_num n m = (case n of None \<Rightarrow> False | Some v \<Rightarrow> m < v)"

text \<open>
  The inner loop over the matches of one pattern, on the pair
  \<open>(maxAmount, bestMatch)\<close>; \<open>nth_groups\<close> are the capture groups the caller tries
  before \<open>match[0]\<close>.
\<close>

definition amountStr_of :: "nat list \<Rightarrow> rxmatch \<Rightarrow> jsstring" where
  "amountStr_of nth_groups m = foldr (\<lambda>n rest. orElse (grp m n) rest) nth_groups (m_full m)"

definition maxStep :: "nat list \<Rightarrow> jsstring \<Rightarrow> rat \<times> jsstring \<Rightarrow> rxmatch \<Rightarrow> rat \<times> jsstring" where
  "maxStep nth_groups locale acc m =
     (let amountStr = amountStr_of nth_groups m;
          numericAmount = parseNumericAmount amountStr locale
      in if gt_num numericAmount (fst acc) then (the numericAmount, amountStr) else acc)"

definition maxOfMatches :: "nat list \<Rightarrow> jsstring \<Rightarrow> rxmatch list \<Rightarrow> rat \<times> jsstring" where
  "maxOfMatches nth_groups locale matches = foldl (maxStep nth_groups locale) (0, []) matches"

fun tryParseWithPatterns :: "jsstring \<Rightarrow> Currency \<Rightarrow> regex list \<Rightarrow> Amount option" where
  "tryParseWithPatterns text currency [] = None"
| "tryParseWithPatterns text currency (pattern # patterns) =
     (let matches = matchAll pattern text in
      if 0 < length matches then
        (let best = maxOfMatches [1, 2] (S ''auto'') matches in
         if 0 < fst best
           then Some \<lparr>a_value = fst best, a_currency = currency, a_raw = snd best\<rparr>
         else tryParseWithPatterns text currency patterns)
      else tryParseWithPatterns text currency patterns)"

subsection \<open>The number shapes and the pattern tables\<close>

text \<open>\<open>\d{1,3}(?:,\d{3})*(?:\.\d{2})?\<close>\<close>

definition num_us :: regex where
  "num_us = rx_seq [rx_rep 1 3 rx_digit, Star (Cat (rx_chr 44) (rx_times 3 rx_digit)),
                    rx_opt (Cat (rx_chr 46) (rx_times 2 rx_digit))]"

text \<open>\<open>\d{1,3}(?:[.,]\d{3})*(?:[.,]\d{2})?\<close>\<close>

definition num_eu :: regex where
  "num_eu = rx_seq [rx_rep 1 3 rx_digit,
                    Star (Cat (Chars [(46, 46), (44, 44)]) (rx_times 3 rx_digit)),
                    rx_opt (Cat (Chars [(46, 46), (44, 44)]) (rx_times 2 rx_digit))]"

text \<open>\<open>\d{1,3}(?:[.,]\d{3})*(?:,\d{2})?\<close>\<close>

definition num_de :: regex where
  "num_de = rx_seq [rx_rep 1 3 rx_digit,
                    Star (Cat (Chars [(46, 46), (44, 44)]) (rx_times 3 rx_digit)),
                    rx_opt (Cat (rx_chr 44) (rx_times 2 rx_digit))]"

text \<open>A symbol, \<open>\s*\<close>, and the number captured as group \<open>n\<close>; and the reverse order.\<close>

definition prefixed :: "jsstring \<Rightarrow> nat \<Rightarrow> regex \<Rightarrow> regex" where
  "prefixed symbol n num = rx_seq [rx_lit symbol, Star rx_space, Grp n num]"

definition suffixed :: "nat \<Rightarrow> regex \<Rightarrow> jsstring \<Rightarrow> regex" where
  "suffixed n num symbol = rx_seq [Grp n num, Star rx_space, rx_lit symbol]"

text \<open>
  \<open>globalPatterns\<close> of \<open>parseAmountAdvanced\<close>, in the order of its keys (the order
  \<open>Object.entries\<close> yields). 8364 is the euro sign, 8378 the lira sign, 163 the pound
  sign.
\<close>

definition globalPatterns :: "(Currency \<times> regex list) list" where
  "globalPatterns =
     [(USD, [prefixed (S ''$'') 1 num_us, prefixed (S ''USD'') 1 num_us]),
      (EUR, [prefixed [8364] 1 num_eu, suffixed 1 num_eu [8364], prefixed (S ''EUR'') 1 num_eu]),
      (TRY, [prefixed [8378] 1 num_eu, suffixed 1 num_eu [8378], suffixed 1 num_eu (S ''TL'')]),
      (GBP, [prefixed [163] 1 num_us, prefixed (S ''GBP'') 1 num_us])]"

definition PRIMARY_CURRENCY_BY_COUNTRY :: "(jsstring \<times> Currency) list" where
  "PRIMARY_CURRENCY_BY_COUNTRY =
     [(S ''US'', USD), (S ''GB'', GBP), (S ''TR'', TRY),
      (S ''DE'', EUR), (S ''FR'', EUR), (S ''ES'', EUR),
      (S ''IT'', EUR), (S ''CA'', CAD), (S ''AU'', AUD),
      (S ''JP'', JPY), (S ''CH'', CHF), (S ''SE'', SEK),
      (S ''NO'', NOK)]"

definition getPrimaryCurrency :: "jsstring \<Rightarrow> Currency" where
  "getPrimaryCurrency countryCode =
     (case map_of PRIMARY_CURRENCY_BY_COUNTRY countryCode of Some c \<Rightarrow> c | None \<Rightarrow> USD)"

text \<open>The loop over the entries of \<open>globalPatterns\<close> that skips the hinted currency.\<close>

fun tryOthers :: "jsstring \<Rightarrow> Currency option \<Rightarrow> (Currency \<times> regex list) list \<Rightarrow> Amount option" where
  "tryOthers text hinted [] = None"
| "tryOthers text hinted ((currency, patterns) # rest) =
     (if hinted = Some currency then tryOthers text hinted rest
      else case tryParseWithPatterns text currency patterns of
             Some result \<Rightarrow> Some result
           | None \<Rightarrow> tryOthers text hinted rest)"

text \<open>
  \<open>parseAmountAdvanced\<close>. The source computes \<open>primaryCurrency\<close> from the hint and
  does not read it afterwards; the binding is kept here as it stands there.
\<close>

definition parseAmountAdvanced :: "jsstring \<Rightarrow> Hint option \<Rightarrow> Amount option" where
  "parseAmountAdvanced text hint =
     (let hint_currency = (case hint of None \<Rightarrow> None | Some h \<Rightarrow> h_currency h);
          hint_country = (case hint of None \<Rightarrow> None | Some h \<Rightarrow> h_country h);
          primaryCurrency =
            (case hint_currency of
               Some c \<Rightarrow> c
             | None \<Rightarrow> getPrimaryCurrency (orElse hint_country (S ''US'')));
          hinted =
            (case hint_currency of
               None \<Rightarrow> None
             | Some hc \<Rightarrow>
                 (case map_of globalPatterns hc of
                    None \<Rightarrow> None
                  | Some patterns \<Rightarrow> tryParseWithPatterns text hc patterns))
      in case hinted of
           Some result \<Rightarrow> Some result
         | None \<Rightarrow> tryOthers text hint_currency globalPatterns)"

subsection \<open>The device-locale variant \<open>parseAmount\<close>\<close>

text \<open>
  \<open>CURRENCY_PATTERNS_BY_LOCALE\<close>: one pattern per currency; where a currency has
  several surface forms they are the alternatives of that one pattern, with capture
  groups 1, 2 and 3.
\<close>

definition currency_patterns_en_US :: "(Currency \<times> regex) list" where
  "currency_patterns_en_US =
     [(USD, prefixed (S ''$'') 1 num_us),
      (EUR, prefixed (S ''EUR'') 1 num_us),
      (GBP, prefixed (S ''GBP'') 1 num_us)]"

definition currency_patterns_de_DE :: "(Currency \<times> regex) list" where
  "currency_patterns_de_DE =
     [(EUR, Alt (prefixed [8364] 1 num_de) (suffixed 2 num_de [8364])),
      (USD, prefixed (S ''USD'') 1 num_de),
      (CHF, prefixed (S ''CHF'') 1 num_de)]"

definition currency_patterns_tr_TR :: "(Currency \<times> regex) list" where
  "currency_patterns_tr_TR =
     [(TRY, rx_alts [prefixed [8378] 1 num_de, suffixed 2 num_de [8378],
                     suffixed 3 num_de (S ''TL'')]),
      (USD, prefixed (S ''$'') 1 num_us),
      (EUR, prefixed [8364] 1 num_de)]"

definition CURRENCY_PATTERNS_BY_LOCALE :: "(jsstring \<times> (Currency \<times> regex) list) list" where
  "CURRENCY_PATTERNS_BY_LOCALE =
     [(S ''en-US'', currency_patterns_en_US),
      (S ''de-DE'', currency_patterns_de_DE),
      (S ''tr-TR'', currency_patterns_tr_TR)]"

text \<open>
  The template literal of the locale key: an absent locale gives the text
  \<open>undefined-undefined\<close>, which is not empty, so the alternative \<open>'en-US'\<close> of the
  source is never taken.
\<close>

definition localeKey_of :: "Locale option \<Rightarrow> jsstring" where
  "localeKey_of locale =
     (case locale of
        None \<Rightarrow> S ''undefined-undefined''
      | Some l \<Rightarrow> l_languageCode l @ S ''-'' @ l_countryCode l)"

fun parseAmountLoop ::
  "jsstring \<Rightarrow> jsstring \<Rightarrow> (Currency \<times> regex) list \<Rightarrow> Currency list \<Rightarrow> Amount option" where
  "parseAmountLoop text localeKey patterns [] = None"
| "parseAmountLoop text localeKey patterns (currency # currencies) =
     (case map_of patterns currency of
        None \<Rightarrow> parseAmountLoop text localeKey patterns currencies
      | Some pattern \<Rightarrow>
          (let matches = matchAll pattern text in
           if 0 < length matches then
             (let best = maxOfMatches [1, 2, 3] localeKey matches in
              if 0 < fst best
                then Some \<lparr>a_value = fst best, a_currency = currency, a_raw = snd best\<rparr>
              else parseAmountLoop text localeKey patterns currencies)
           else parseAmountLoop text localeKey patterns currencies))"

definition parseAmount :: "Locale option \<Rightarrow> jsstring \<Rightarrow> Amount option" where
  "parseAmount locale text =
     (let localeKey = localeKey_of locale;
          patterns = (case map_of CURRENCY_PATTERNS_BY_LOCALE localeKey of
                        Some ps \<Rightarrow> ps
                      | None \<Rightarrow> currency_patterns_en_US);
          primaryCurrency =
            getPrimaryCurrency
              (orElse (case locale of None \<Rightarrow> None | Some l \<Rightarrow> Some (l_countryCode l)) (S ''US''));
          currencies = primaryCurrency # Currency_values
      in parseAmountLoop text localeKey patterns currencies)"

section \<open>Due-date extraction (LocalizedParser.parseDate)\<close>

text \<open>
  A pattern of \<open>DATE_PATTERNS_BY_LOCALE\<close>: the expression, the capture groups (counted
  from 0) that hold day, month and year, and the format label.
\<close>

record DatePattern =
  dp_regex :: regex
  dp_order :: "nat \<times> nat \<times> nat"
  dp_format :: jsstring

text \<open>\<open>(\d{1,2})SEP(\d{1,2})SEP(\d{4})\<close> for a separator \<open>SEP\<close>.\<close>

definition date_regex :: "int \<Rightarrow> regex" where
  "date_regex sep =
     rx_seq [Grp 1 (rx_rep 1 2 rx_digit), rx_chr sep, Grp 2 (rx_rep 1 2 rx_digit), rx_chr sep,
             Grp 3 (rx_times 4 rx_digit)]"

definition date_patterns_en_US :: "DatePattern list" where
  "date_patterns_en_US =
     [\<lparr>dp_regex = date_regex 47, dp_order = (1, 0, 2), dp_format = S ''MM/DD/YYYY''\<rparr>,
      \<lparr>dp_regex = date_regex 45, dp_order = (1, 0, 2), dp_format = S ''MM-DD-YYYY''\<rparr>]"

definition date_patterns_de_DE :: "DatePattern list" where
  "date_patterns_de_DE =
     [\<lparr>dp_regex = date_regex 46, dp_order = (0, 1, 2), dp_format = S ''DD.MM.YYYY''\<rparr>,
      \<lparr>dp_regex = date_regex 47, dp_order = (0, 1, 2), dp_format = S ''DD/MM/YYYY''\<rparr>]"

definition date_patterns_tr_TR :: "DatePattern list" where
  "date_patterns_tr_TR =
     [\<lparr>dp_regex = date_regex 46, dp_order = (0, 1, 2), dp_format = S ''DD.MM.YYYY''\<rparr>,
      \<lparr>dp_regex = date_regex 47, dp_order = (0, 1, 2), dp_format = S ''DD/MM/YYYY''\<rparr>]"

definition DATE_PATTERNS_BY_LOCALE :: "(jsstring \<times> DatePattern list) list" where
  "DATE_PATTERNS_BY_LOCALE =
     [(S ''en-US'', date_patterns_en_US),
      (S ''de-DE'', date_patterns_de_DE),
      (S ''tr-TR'', date_patterns_tr_TR)]"

text \<open>
  \<open>DUE_KEYWORDS_BY_LANGUAGE\<close>. Code units beyond ASCII: 228 a with diaeresis,
  246 o with diaeresis.
\<close>

definition due_keywords_en :: "jsstring list" where
  "due_keywords_en =
     [S ''due'', S ''payment due'', S ''pay by'', S ''deadline'', S ''due date'', S ''payable by'']"

definition due_keywords_de :: "jsstring list" where
  "due_keywords_de =
     [S ''f'' @ 228 # S ''llig'', S ''zahlbar bis'', S ''zahlung bis'',
      S ''f'' @ 228 # S ''lligkeit'', S ''zahlungstermin'']"

definition due_keywords_tr :: "jsstring list" where
  "due_keywords_tr =
     [S ''son '' @ 246 # S ''deme'', 246 # S ''deme tarihi'', S ''vade'', S ''son tarih'',
      246 # S ''deme vadesi'', S ''son '' @ 246 # S ''deme tarihi'']"

definition DUE_KEYWORDS_BY_LANGUAGE :: "(jsstring \<times> jsstring list) list" where
  "DUE_KEYWORDS_BY_LANGUAGE =
     [(S ''en'', due_keywords_en), (S ''de'', due_keywords_de), (S ''tr'', due_keywords_tr)]"

definition getDueKeywords :: "jsstring \<Rightarrow> jsstring list" where
  "getDueKeywords language =
     (case map_of DUE_KEYWORDS_BY_LANGUAGE language of Some ks \<Rightarrow> ks | None \<Rightarrow> due_keywords_en)"

text \<open>
  \<open>parseInt\<close> on a capture group: the leading decimal digits, \<open>None\<close> (NaN) when
  there is none. The groups of the date patterns hold digits only.
\<close>

definition parseInt :: "jsstring \<Rightarrow> int option" where
  "parseInt s = (let ds = takeWhile isDigit s in if ds = [] then None else Some (digits_val ds))"

text \<open>
  The value of \<open>new Date(year, monthIndex, day)\<close> is modelled by the calendar day it
  denotes in local time. The constructor does not reject a day beyond the end of the
  month: it counts on into the following month (\<open>rollOver\<close>, on a month from 1 to 12
  and a day from 1 on). \<open>parseDate\<close> calls it with a month index from 0 to 11 and a
  day from 1 to 31 only. The result is \<open>None\<close> (an invalid date, whose time value is
  NaN) only beyond the range of time values, which ends in the year 275760.
\<close>

record CalendarDate =
  cd_year :: int
  cd_month :: int
  cd_day :: int

definition isLeapYear :: "int \<Rightarrow> bool" where
  "isLeapYear y = (y mod 4 = 0 \<and> (y mod 100 \<noteq> 0 \<or> y mod 400 = 0))"

definition daysInMonth :: "int \<Rightarrow> int \<Rightarrow> int" where
  "daysInMonth y m =
     (if m = 2 then (if isLeapYear y then 29 else 28)
      else if m = 4 \<or> m = 6 \<or> m = 9 \<or> m = 11 then 30
      else 31)"

function rollOver :: "int \<Rightarrow> int \<Rightarrow> int \<Rightarrow> CalendarDate" where
  "rollOver y m d =
     (if daysInMonth y m < d
        then rollOver (if m = 12 then y + 1 else y) (if m = 12 then 1 else m + 1)
               (d - daysInMonth y m)
      else \<lparr>cd_year = y, cd_month = m, cd_day = d\<rparr>)"
  by pat_completeness auto
termination
  by (relation "measure (\<lambda>(y, m, d). nat d)") (auto simp add: daysInMonth_def split: if_splits)

declare rollOver.simps [simp del]

definition newDate :: "int \<Rightarrow> int \<Rightarrow> int \<Rightarrow> CalendarDate option" where
  "newDate year monthIndex day =
     (if 275760 < year then None else Some (rollOver year (monthIndex + 1) day))"

record DateInfo =
  d_date :: CalendarDate
  d_raw :: jsstring
  d_format :: jsstring

text \<open>\<open>text.substring(a, b)\<close> for \<open>a \<le> b\<close>.\<close>

definition substring :: "jsstring \<Rightarrow> nat \<Rightarrow> nat \<Rightarrow> jsstring" where
  "substring text a b = take (b - a) (drop a text)"

text \<open>
  The field test of the source, \<open>day >= 1 && day <= 31 && month >= 1 && month <= 12 &&
  year >= 2020\<close>; a comparison with NaN is false.
\<close>

definition fieldsInRange :: "int option \<Rightarrow> int option \<Rightarrow> int option \<Rightarrow> bool" where
  "fieldsInRange day month year =
     (case (day, month, year) of
        (Some d, Some m, Some y) \<Rightarrow> 1 \<le> d \<and> d \<le> 31 \<and> 1 \<le> m \<and> m \<le> 12 \<and> 2020 \<le> y
      | _ \<Rightarrow> False)"

definition groupText :: "rxmatch \<Rightarrow> nat \<Rightarrow> jsstring" where
  "groupText m n = (case grp m n of Some g \<Rightarrow> g | None \<Rightarrow> [])"

text \<open>The inner loop over the matches of one pattern; \<open>n\<close> is \<open>matches.length\<close>.\<close>

fun parseDateMatches ::
  "jsstring \<Rightarrow> jsstring list \<Rightarrow> DatePattern \<Rightarrow> nat \<Rightarrow> rxmatch list \<Rightarrow> DateInfo option" where
  "parseDateMatches text dueKeywords pattern n [] = None"
| "parseDateMatches text dueKeywords pattern n (match # rest) =
     (let fullMatch = m_full match;
          index = m_index match;
          surrounding = substring text (index - 50) (index + 100);
          isDueDate = list_ex (\<lambda>keyword.
                        str_includes (toLowerCase surrounding) (toLowerCase keyword)) dueKeywords
      in if isDueDate \<or> n = 1 then
           (let day = parseInt (groupText match (fst (dp_order pattern) + 1));
                month = parseInt (groupText match (fst (snd (dp_order pattern)) + 1));
                year = parseInt (groupText match (snd (snd (dp_order pattern)) + 1))
            in if fieldsInRange day month year then
                 (case newDate (the year) (the month - 1) (the day) of
                    Some date \<Rightarrow> Some \<lparr>d_date = date, d_raw = fullMatch, d_format = dp_format pattern\<rparr>
                  | None \<Rightarrow> parseDateMatches text dueKeywords pattern n rest)
               else parseDateMatches text dueKeywords pattern n rest)
         else parseDateMatches text dueKeywords pattern n rest)"

fun parseDatePatterns :: "jsstring \<Rightarrow> jsstring list \<Rightarrow> DatePattern list \<Rightarrow> DateInfo option" where
  "parseDatePatterns text dueKeywords [] = None"
| "parseDatePatterns text dueKeywords (pattern # patterns) =
     (let matches = matchAll (dp_regex pattern) text in
      case parseDateMatches text dueKeywords pattern (length matches) matches of
        Some result \<Rightarrow> Some result
      | None \<Rightarrow> parseDatePatterns text dueKeywords patterns)"

definition parseDate :: "Locale option \<Rightarrow> jsstring \<Rightarrow> DateInfo option" where
  "parseDate locale text =
     (let localeKey = localeKey_of locale;
          patterns = (case map_of DATE_PATTERNS_BY_LOCALE localeKey of
                        Some ps \<Rightarrow> ps
                      | None \<Rightarrow> date_patterns_en_US);
          dueKeywords =
            getDueKeywords
              (orElse (case locale of None \<Rightarrow> None | Some l \<Rightarrow> Some (l_languageCode l)) (S ''en''))
      in parseDatePatterns text dueKeywords patterns)"

section \<open>Double-precision arithmetic\<close>

text \<open>
  The scores of the classifier are sums and differences of multiples of 0.4, 0.2, 0.3,
  0.5, 0.1 and 0.05, none of which but 0.5 is a double, and the selection of the best type
  compares them; there the rounding of every single operation decides which scores are
  equal. \<open>dbl x\<close> is the double nearest to the rational \<open>x\<close>: the significand is
  rounded to 53 bits, a tie goes to the even significand. Overflow and subnormal numbers
  are not modelled; the magnitudes of the scores are far from both. A decimal literal of
  the source denotes \<open>dbl\<close> of its decimal value, and \<open>a + b\<close>, \<open>a - b\<close> and
  \<open>a * b\<close> on doubles are \<open>dadd\<close>, \<open>dsub\<close> and \<open>dmul\<close>: the exact result, rounded.
\<close>

text \<open>The number of bits of a positive integer.\<close>

function bitLength :: "int \<Rightarrow> nat" where
  "bitLength n = (if n \<le> 0 then 0 else Suc (bitLength (n div 2)))"
  by pat_completeness auto
termination
  by (relation "measure nat") auto

declare bitLength.simps [simp del]

text \<open>The integer nearest to \<open>n / d\<close> for \<open>0 \<le> n\<close> and \<open>0 < d\<close>, a tie going to the even one.\<close>

definition roundHalfEven :: "int \<Rightarrow> int \<Rightarrow> int" where
  "roundHalfEven n d =
     (let q = n div d; r = n mod d
      in if 2 * r < d then q else if d < 2 * r then q + 1 else if even q then q else q + 1)"

text \<open>
  For \<open>x = p / q\<close> in lowest terms and \<open>a = |p|\<close>: the difference \<open>k\<close> of the bit
  lengths gives \<open>2 ^ (k - 1) < a / q < 2 ^ (k + 1)\<close>, the exponent \<open>e\<close> is \<open>k\<close> or
  \<open>k - 1\<close>, and the significand is \<open>a / q\<close> scaled by \<open>2 ^ (52 - e)\<close> and rounded.
\<close>

definition dbl :: "rat \<Rightarrow> rat" where
  "dbl x =
     (case quotient_of x of
        (p, q) \<Rightarrow>
          if p = 0 then 0
          else
            (let a = \<bar>p\<bar>;
                 k = int (bitLength a) - int (bitLength q);
                 e = (if (if 0 \<le> k then q * 2 ^ nat k \<le> a else q \<le> a * 2 ^ nat (- k))
                      then k else k - 1);
                 s = 52 - e;
                 m = (if 0 \<le> s then roundHalfEven (a * 2 ^ nat s) q
                      else roundHalfEven a (q * 2 ^ nat (- s)))
             in of_int (sgn p) * (if 0 \<le> s then of_int m / 2 ^ nat s
                                  else of_int (m * 2 ^ nat (- s)))))"

definition dadd :: "rat \<Rightarrow> rat \<Rightarrow> rat" where
  "dadd a b = dbl (a + b)"

definition dsub :: "rat \<Rightarrow> rat \<Rightarrow> rat" where
  "dsub a b = dbl (a - b)"

definition dmul :: "rat \<Rightarrow> rat \<Rightarrow> rat" where
  "dmul a b = dbl (a * b)"

section \<open>Bill-type classification (AIBillClassifier)\<close>

datatype InvoiceType =
  ELECTRICITY | WATER | GAS | INTERNET | PHONE | CABLE | INSURANCE | RENT | CREDIT_CARD | UNKNOWN

datatype Country = US | UK | DE | FR | ES | IT | TR | CA | AU | JP | CH | SE | NO

record ClassificationKeywords =
  ck_primary :: "jsstring list"
  ck_secondary :: "jsstring list"
  ck_companies :: "jsstring list"
  ck_patterns :: "regex list"
  ck_negativeKeywords :: "jsstring list"

text \<open>The optional \<open>context\<close> argument of \<open>classifyBill\<close>.\<close>

record Context =
  ctx_currency :: "Currency option"
  ctx_country :: "Country option"
  ctx_companyHint :: "jsstring option"
  ctx_amountHint :: "rat option"

record CompanyMatch =
  cm_name :: jsstring
  cm_confidence :: rat

text \<open>
  The result of \<open>classifyBill\<close>. The \<open>reasoning\<close> text of the source, a rendering of
  the result for the log, is not part of the model.
\<close>

record ClassificationResult =
  r_type :: InvoiceType
  r_confidence :: rat
  r_companyName :: "jsstring option"
  r_companyConfidence :: "rat option"

subsection \<open>\<open>CLASSIFICATION_RULES\<close>\<close>

text \<open>
  The table of the source, one definition per bill type. Code units beyond ASCII are
  written as numbers: 228 a with diaeresis, 231 c with cedilla, 246 o with diaeresis,
  252 u with diaeresis, 287 g with breve, 305 dotless i, 351 s with cedilla; 199, 214,
  220, 286, 304 and 350 are the capitals (304 is the capital I with dot above).
\<close>

text \<open>
  The rules of ELECTRICITY. Its patterns, all with the flag \<open>i\<close>:
  \<^verbatim>\<open>(?:kw|kilowatt).?h\<close>
  \<^verbatim>\<open>(?:elektrik|electric|strom).{0,20}(?:fatura|bill|rechnung)\<close>
  \<^verbatim>\<open>(?:enerji|energy|energie).{0,20}(?:t\u00FCketim|consumption|verbrauch)\<close>
\<close>

definition rules_ELECTRICITY :: ClassificationKeywords where
  "rules_ELECTRICITY =
     \<lparr>ck_primary =
        [S ''elektrik'', S ''teda'' @ [351], S ''elektrik t'' @ 252 # S ''ketimi'',
         S ''kwh'', S ''enerji'', S ''g'' @ 252 # [231], S ''electricity'',
         S ''electric'', S ''power'', S ''energy'', S ''kwh'', S ''kilowatt'',
         S ''strom'', S ''elektrizit'' @ 228 # S ''t'', S ''energie'',
         S ''kilowattstunde''],
      ck_secondary =
        [S ''fatura'', S ''bill'', S ''rechnung'', S ''t'' @ 252 # S ''ketim'',
         S ''consumption'', S ''verbrauch'', S ''meter'', S ''saya'' @ [231],
         S ''z'' @ 228 # S ''hler'', S ''watt'', S ''volt''],
      ck_companies =
        [S ''TEDA'' @ [350], S ''E.ON'', S ''RWE'', S ''VATTENFALL'', S ''ENEL'',
         S ''EDF'', S ''ENDESA'', S ''PG&E'', S ''EDISON'', S ''ELECTRIC COMPANY'',
         S ''POWER COMPANY''],
      ck_patterns =
        [rx_seq [rx_alts [rx_liti (S ''kw''), rx_liti (S ''kilowatt'')],
                 rx_opt rx_dot,
                 rx_liti (S ''h'')],
         rx_seq [rx_alts [rx_liti (S ''elektrik''), rx_liti (S ''electric''), rx_liti (S ''strom'')],
                 rx_upto 20 rx_dot,
                 rx_alts [rx_liti (S ''fatura''),
                          rx_liti (S ''bill''),
                          rx_liti (S ''rechnung'')]],
         rx_seq [rx_alts [rx_liti (S ''enerji''), rx_liti (S ''energy''), rx_liti (S ''energie'')],
                 rx_upto 20 rx_dot,
                 rx_alts [rx_liti (S ''t'' @ 252 # S ''ketim''),
                          rx_liti (S ''consumption''),
                          rx_liti (S ''verbrauch'')]]],
      ck_negativeKeywords =
        [S ''su'', S ''water'', S ''wasser'', S ''gaz'', S ''gas'', S ''internet'',
         S ''telefon'']\<rparr>"

text \<open>
  The rules of WATER. Its patterns, all with the flag \<open>i\<close>:
  \<^verbatim>\<open>(?:su|water|wasser).{0,20}(?:fatura|bill|rechnung)\<close>
  \<^verbatim>\<open>(?:m3|metre.?k\u00FCp|cubic.?meter)\<close>
  \<^verbatim>\<open>water.?works\<close>
\<close>

definition rules_WATER :: ClassificationKeywords where
  "rules_WATER =
     \<lparr>ck_primary =
        [S ''su'', S ''water'', S ''wasser'', S ''iski'', S ''aqualogy'',
         S ''waterworks'', S ''su faturas'' @ [305], S ''water bill'',
         S ''wasserrechnung''],
      ck_secondary =
        [S ''t'' @ 252 # S ''ketim'', S ''consumption'', S ''verbrauch'', S ''meter'',
         S ''saya'' @ [231], S ''z'' @ 228 # S ''hler'', S ''municipal'',
         S ''belediye'', S ''stadtwerke''],
      ck_companies =
        [304 # S ''SK'' @ [304], S ''SUSKI'', S ''AQUALOGY'', S ''WATERWORKS'',
         S ''MUNICIPAL WATER'', S ''STADTWERKE'', S ''WATER AUTHORITY'',
         S ''WATER DISTRICT''],
      ck_patterns =
        [rx_seq [rx_alts [rx_liti (S ''su''), rx_liti (S ''water''), rx_liti (S ''wasser'')],
                 rx_upto 20 rx_dot,
                 rx_alts [rx_liti (S ''fatura''),
                          rx_liti (S ''bill''),
                          rx_liti (S ''rechnung'')]],
         rx_alts [rx_liti (S ''m3''),
                  rx_seq [rx_liti (S ''metre''),
                          rx_opt rx_dot,
                          rx_liti (S ''k'' @ 252 # S ''p'')],
                  rx_seq [rx_liti (S ''cubic''), rx_opt rx_dot, rx_liti (S ''meter'')]],
         rx_seq [rx_liti (S ''water''), rx_opt rx_dot, rx_liti (S ''works'')]],
      ck_negativeKeywords =
        [S ''elektrik'', S ''electric'', S ''strom'', S ''gaz'', S ''gas'', S ''telefon'']\<rparr>"

text \<open>
  The rules of GAS. Its patterns, all with the flag \<open>i\<close>:
  \<^verbatim>\<open>(?:do\u011Fal.?gaz|natural.?gas|erdgas)\<close>
  \<^verbatim>\<open>(?:gaz|gas).{0,20}(?:fatura|bill|rechnung)\<close>
  \<^verbatim>\<open>(?:m3|metre.?k\u00FCp|cubic.?meter).{0,20}(?:gaz|gas)\<close>
\<close>

definition rules_GAS :: ClassificationKeywords where
  "rules_GAS =
     \<lparr>ck_primary =
        [S ''do'' @ 287 # S ''algaz'', S ''gaz'', S ''gas'', S ''erdgas'',
         S ''natural gas'', S ''gaz faturas'' @ [305], S ''gas bill'', S ''gasrechnung''],
      ck_secondary =
        [S ''t'' @ 252 # S ''ketim'', S ''consumption'', S ''verbrauch'', S ''meter'',
         S ''saya'' @ [231], S ''z'' @ 228 # S ''hler'', S ''m3'',
         S ''metrek'' @ 252 # S ''p'', S ''cubic meter''],
      ck_companies =
        [304 # S ''GDA'' @ [350], S ''BOTA'' @ [350], S ''SHELL'', S ''BP'',
         S ''TOTAL'', S ''ENI'', S ''GAZPROM'', S ''E.ON GAS'', S ''STADTWERKE''],
      ck_patterns =
        [rx_alts [rx_seq [rx_liti (S ''do'' @ 287 # S ''al''), rx_opt rx_dot, rx_liti (S ''gaz'')],
                  rx_seq [rx_liti (S ''natural''), rx_opt rx_dot, rx_liti (S ''gas'')],
                  rx_liti (S ''erdgas'')],
         rx_seq [rx_alts [rx_liti (S ''gaz''), rx_liti (S ''gas'')],
                 rx_upto 20 rx_dot,
                 rx_alts [rx_liti (S ''fatura''),
                          rx_liti (S ''bill''),
                          rx_liti (S ''rechnung'')]],
         rx_seq [rx_alts [rx_liti (S ''m3''), rx_seq [rx_liti (S ''metre''), rx_opt rx_dot, rx_liti (S ''k'' @ 252 # S ''p'')], rx_seq [rx_liti (S ''cubic''), rx_opt rx_dot, rx_liti (S ''meter'')]],
                 rx_upto 20 rx_dot,
                 rx_alts [rx_liti (S ''gaz''), rx_liti (S ''gas'')]]],
      ck_negativeKeywords =
        [S ''elektrik'', S ''electric'', S ''su'', S ''water'', S ''telefon'']\<rparr>"

text \<open>
  The rules of INTERNET. Its patterns, all with the flag \<open>i\<close>:
  \<^verbatim>\<open>(?:internet|broadband|fiber|adsl).{0,20}(?:fatura|bill|rechnung)\<close>
  \<^verbatim>\<open>(?:\d+).?(?:mbps|gb)\<close>
  \<^verbatim>\<open>wifi|wi-fi\<close>
\<close>

definition rules_INTERNET :: ClassificationKeywords where
  "rules_INTERNET =
     \<lparr>ck_primary =
        [S ''internet'', S ''broadband'', S ''wifi'', S ''fiber'', S ''adsl'',
         S ''vdsl'', S ''internet faturas'' @ [305], S ''internet bill'',
         S ''internetrechnung''],
      ck_secondary =
        [S ''mbps'', S ''gb'', S ''unlimited'',
         S ''s'' @ 305 # S ''n'' @ 305 # S ''rs'' @ 305 # S ''z'', S ''unbegrenzt'',
         S ''paket'', S ''package'', S ''paket'', S ''modem'', S ''router''],
      ck_companies =
        [S ''T'' @ 220 # S ''RK TELEKOM'', S ''VODAFONE'', S ''TURKCELL'',
         S ''SUPERONLINE'', S ''TELEKOM'', S ''COMCAST'', S ''VERIZON'', S ''AT&T'',
         S ''ORANGE''],
      ck_patterns =
        [rx_seq [rx_alts [rx_liti (S ''internet''), rx_liti (S ''broadband''), rx_liti (S ''fiber''), rx_liti (S ''adsl'')],
                 rx_upto 20 rx_dot,
                 rx_alts [rx_liti (S ''fatura''),
                          rx_liti (S ''bill''),
                          rx_liti (S ''rechnung'')]],
         rx_seq [Cat rx_digit (Star rx_digit),
                 rx_opt rx_dot,
                 rx_alts [rx_liti (S ''mbps''), rx_liti (S ''gb'')]],
         rx_alts [rx_liti (S ''wifi''), rx_liti (S ''wi-fi'')]],
      ck_negativeKeywords =
        [S ''elektrik'', S ''su'', S ''gaz'', S ''kredi'', S ''credit'']\<rparr>"

text \<open>
  The rules of PHONE. Its patterns, all with the flag \<open>i\<close>:
  \<^verbatim>\<open>(?:telefon|phone|mobile).{0,20}(?:fatura|bill|rechnung)\<close>
  \<^verbatim>\<open>(?:\d+).?(?:dakika|minutes|minuten)\<close>
  \<^verbatim>\<open>gsm|cellular\<close>
\<close>

definition rules_PHONE :: ClassificationKeywords where
  "rules_PHONE =
     \<lparr>ck_primary =
        [S ''telefon'', S ''phone'', S ''mobile'', S ''cellular'', S ''gsm'',
         S ''telefon faturas'' @ [305], S ''phone bill'', S ''telefonrechnung''],
      ck_secondary =
        [S ''dakika'', S ''minutes'', S ''minuten'', S ''sms'', S ''mms'', S ''data'',
         S ''hat'', S ''line'', S ''nummer'', S ''arama'', S ''calls'', S ''anrufe''],
      ck_companies =
        [S ''TURKCELL'', S ''VODAFONE'', S ''T'' @ 220 # S ''RK TELEKOM'',
         S ''TELEKOM'', S ''VERIZON'', S ''AT&T'', S ''T-MOBILE'', S ''ORANGE'', S ''O2''],
      ck_patterns =
        [rx_seq [rx_alts [rx_liti (S ''telefon''), rx_liti (S ''phone''), rx_liti (S ''mobile'')],
                 rx_upto 20 rx_dot,
                 rx_alts [rx_liti (S ''fatura''),
                          rx_liti (S ''bill''),
                          rx_liti (S ''rechnung'')]],
         rx_seq [Cat rx_digit (Star rx_digit),
                 rx_opt rx_dot,
                 rx_alts [rx_liti (S ''dakika''),
                          rx_liti (S ''minutes''),
                          rx_liti (S ''minuten'')]],
         rx_alts [rx_liti (S ''gsm''), rx_liti (S ''cellular'')]],
      ck_negativeKeywords =
        [S ''internet'', S ''elektrik'', S ''su'', S ''gaz'']\<rparr>"

text \<open>
  The rules of CABLE. Its patterns, all with the flag \<open>i\<close>:
  \<^verbatim>\<open>(?:kablo|cable).?(?:tv|television)\<close>
  \<^verbatim>\<open>(?:uydu|satellite)\<close>
  \<^verbatim>\<open>(?:kanal|channels|kan\u00E4le).{0,20}(?:paket|package)\<close>
\<close>

definition rules_CABLE :: ClassificationKeywords where
  "rules_CABLE =
     \<lparr>ck_primary =
        [S ''kablo'', S ''cable'', S ''tv'', S ''satellite'', S ''uydu'',
         S ''kablo tv'', S ''cable tv'', S ''kabelfernsehen''],
      ck_secondary =
        [S ''kanal'', S ''channels'', S ''kan'' @ 228 # S ''le'', S ''broadcast'',
         S ''yay'' @ 305 # S ''n'', S ''digital'', S ''hd'', S ''4k'', S ''premium''],
      ck_companies =
        [S ''DIGITURK'', S ''TIVIBU'', S ''DSAT'', S ''COMCAST'', S ''SPECTRUM'',
         S ''SKY'', S ''CANAL+'', S ''ZIGGO''],
      ck_patterns =
        [rx_seq [rx_alts [rx_liti (S ''kablo''), rx_liti (S ''cable'')],
                 rx_opt rx_dot,
                 rx_alts [rx_liti (S ''tv''), rx_liti (S ''television'')]],
         rx_alts [rx_liti (S ''uydu''), rx_liti (S ''satellite'')],
         rx_seq [rx_alts [rx_liti (S ''kanal''), rx_liti (S ''channels''), rx_liti (S ''kan'' @ 228 # S ''le'')],
                 rx_upto 20 rx_dot,
                 rx_alts [rx_liti (S ''paket''), rx_liti (S ''package'')]]],
      ck_negativeKeywords =
        [S ''internet'', S ''telefon'', S ''elektrik'']\<rparr>"

text \<open>
  The rules of INSURANCE. Its patterns, all with the flag \<open>i\<close>:
  \<^verbatim>\<open>(?:sigorta|insurance|versicherung).{0,20}(?:fatura|bill|rechnung)\<close>
  \<^verbatim>\<open>(?:prim|premium|pr\u00E4mie)\<close>
  \<^verbatim>\<open>(?:poli\u00E7e|policy)\<close>
\<close>

definition rules_INSURANCE :: ClassificationKeywords where
  "rules_INSURANCE =
     \<lparr>ck_primary =
        [S ''sigorta'', S ''insurance'', S ''versicherung'', S ''poli'' @ 231 # S ''e'',
         S ''policy'', S ''sigorta faturas'' @ [305], S ''insurance bill'',
         S ''versicherungsrechnung''],
      ck_secondary =
        [S ''prim'', S ''premium'', S ''pr'' @ 228 # S ''mie'', S ''kasko'', S ''dask'',
         S ''hayat'', S ''sa'' @ 287 # S ''l'' @ 305 # S ''k'', S ''health'',
         S ''gesundheit'', S ''auto'', S ''car''],
      ck_companies =
        [S ''AXA'', S ''ALLIANZ'', S ''ZURICH'', S ''MAPFRE'', S ''AKSIGORTA'',
         S ''ANADOLU SIGORTA'', S ''ALLIANZ T'' @ 220 # S ''RKIYE''],
      ck_patterns =
        [rx_seq [rx_alts [rx_liti (S ''sigorta''), rx_liti (S ''insurance''), rx_liti (S ''versicherung'')],
                 rx_upto 20 rx_dot,
                 rx_alts [rx_liti (S ''fatura''),
                          rx_liti (S ''bill''),
                          rx_liti (S ''rechnung'')]],
         rx_alts [rx_liti (S ''prim''),
                  rx_liti (S ''premium''),
                  rx_liti (S ''pr'' @ 228 # S ''mie'')],
         rx_alts [rx_liti (S ''poli'' @ 231 # S ''e''), rx_liti (S ''policy'')]],
      ck_negativeKeywords =
        [S ''elektrik'', S ''su'', S ''gaz'', S ''telefon'']\<rparr>"

text \<open>
  The rules of RENT. Its patterns, all with the flag \<open>i\<close>:
  \<^verbatim>\<open>(?:kira|rent|miete).{0,20}(?:fatura|bill|rechnung)\<close>
  \<^verbatim>\<open>(?:apartment|daire|wohnung)\<close>
  \<^verbatim>\<open>(?:monthly|ayl\u0131k|monatlich).{0,20}(?:rent|kira|miete)\<close>
\<close>

definition rules_RENT :: ClassificationKeywords where
  "rules_RENT =
     \<lparr>ck_primary =
        [S ''kira'', S ''rent'', S ''miete'', S ''rental'', S ''lease'',
         S ''kira faturas'' @ [305], S ''rent bill'', S ''mietrechnung''],
      ck_secondary =
        [S ''apartment'', S ''daire'', S ''wohnung'', S ''ev'', S ''house'', S ''haus'',
         S ''ayl'' @ 305 # S ''k'', S ''monthly'', S ''monatlich'', S ''deposit'',
         S ''kaution''],
      ck_companies =
        [S ''REAL ESTATE'', S ''PROPERTY'', S ''EMLAK'', S ''IMMOBILIEN'',
         S ''PROPERTY MANAGEMENT'', S ''ESTATE AGENCY''],
      ck_patterns =
        [rx_seq [rx_alts [rx_liti (S ''kira''), rx_liti (S ''rent''), rx_liti (S ''miete'')],
                 rx_upto 20 rx_dot,
                 rx_alts [rx_liti (S ''fatura''),
                          rx_liti (S ''bill''),
                          rx_liti (S ''rechnung'')]],
         rx_alts [rx_liti (S ''apartment''), rx_liti (S ''daire''), rx_liti (S ''wohnung'')],
         rx_seq [rx_alts [rx_liti (S ''monthly''), rx_liti (S ''ayl'' @ 305 # S ''k''), rx_liti (S ''monatlich'')],
                 rx_upto 20 rx_dot,
                 rx_alts [rx_liti (S ''rent''),
                          rx_liti (S ''kira''),
                          rx_liti (S ''miete'')]]],
      ck_negativeKeywords =
        [S ''elektrik'', S ''su'', S ''telefon'', S ''internet'']\<rparr>"

text \<open>
  The rules of CREDIT_CARD. Its patterns, all with the flag \<open>i\<close>:
  \<^verbatim>\<open>(?:kredi.?kart|credit.?card|kreditkarte)\<close>
  \<^verbatim>\<open>(?:visa|mastercard|american.?express)\<close>
  \<^verbatim>\<open>(?:minimum.?payment|minimum.?\u00F6deme)\<close>
\<close>

definition rules_CREDIT_CARD :: ClassificationKeywords where
  "rules_CREDIT_CARD =
     \<lparr>ck_primary =
        [S ''kredi kart'' @ [305], S ''credit card'', S ''kreditkarte'', S ''visa'',
         S ''mastercard'', S ''kredi kart'' @ 305 # S '' faturas'' @ [305],
         S ''credit card bill'', S ''kreditkartenrechnung''],
      ck_secondary =
        [S ''limit'', S ''minimum'', S ''payment'', 246 # S ''deme'', S ''zahlung'',
         S ''balance'', S ''bakiye'', S ''saldo'', S ''interest'', S ''faiz''],
      ck_companies =
        [S ''AKBANK'', S ''GARANTI'', 304 # 350 # S '' BANKASI'', S ''YAPIKRED'',
         S ''CHASE'', S ''WELLS FARGO'', S ''DEUTSCHE BANK'', S ''COMMERZBANK''],
      ck_patterns =
        [rx_alts [rx_seq [rx_liti (S ''kredi''), rx_opt rx_dot, rx_liti (S ''kart'')],
                  rx_seq [rx_liti (S ''credit''), rx_opt rx_dot, rx_liti (S ''card'')],
                  rx_liti (S ''kreditkarte'')],
         rx_alts [rx_liti (S ''visa''),
                  rx_liti (S ''mastercard''),
                  rx_seq [rx_liti (S ''american''), rx_opt rx_dot, rx_liti (S ''express'')]],
         rx_alts [rx_seq [rx_liti (S ''minimum''), rx_opt rx_dot, rx_liti (S ''payment'')],
                  rx_seq [rx_liti (S ''minimum''),
                          rx_opt rx_dot,
                          rx_liti (246 # S ''deme'')]]],
      ck_negativeKeywords =
        [S ''elektrik'', S ''su'', S ''gaz'', S ''internet'']\<rparr>"

text \<open>The rules of UNKNOWN: all lists are empty.\<close>

definition rules_UNKNOWN :: ClassificationKeywords where
  "rules_UNKNOWN =
     \<lparr>ck_primary =
        [],
      ck_secondary =
        [],
      ck_companies =
        [],
      ck_patterns =
        [],
      ck_negativeKeywords =
        []\<rparr>"


definition CLASSIFICATION_RULES :: "InvoiceType \<Rightarrow> ClassificationKeywords" where
  "CLASSIFICATION_RULES t =
     (case t of
        ELECTRICITY \<Rightarrow> rules_ELECTRICITY
      | WATER \<Rightarrow> rules_WATER
      | GAS \<Rightarrow> rules_GAS
      | INTERNET \<Rightarrow> rules_INTERNET
      | PHONE \<Rightarrow> rules_PHONE
      | CABLE \<Rightarrow> rules_CABLE
      | INSURANCE \<Rightarrow> rules_INSURANCE
      | RENT \<Rightarrow> rules_RENT
      | CREDIT_CARD \<Rightarrow> rules_CREDIT_CARD
      | UNKNOWN \<Rightarrow> rules_UNKNOWN)"

text \<open>
  The keys of the table in the order \<open>Object.entries\<close> yields them, which is the order
  of declaration; \<open>declIndex\<close> is the position of a type in it.
\<close>

definition InvoiceType_entries :: "InvoiceType list" where
  "InvoiceType_entries =
     [ELECTRICITY, WATER, GAS, INTERNET, PHONE, CABLE, INSURANCE, RENT, CREDIT_CARD, UNKNOWN]"

definition declIndex :: "InvoiceType \<Rightarrow> nat" where
  "declIndex t =
     (case t of
        ELECTRICITY \<Rightarrow> 0 | WATER \<Rightarrow> 1 | GAS \<Rightarrow> 2 | INTERNET \<Rightarrow> 3 | PHONE \<Rightarrow> 4
      | CABLE \<Rightarrow> 5 | INSURANCE \<Rightarrow> 6 | RENT \<Rightarrow> 7 | CREDIT_CARD \<Rightarrow> 8 | UNKNOWN \<Rightarrow> 9)"

subsection \<open>Normalisation and scoring\<close>

definition isSpace :: "int \<Rightarrow> bool" where
  "isSpace c = in_ranges c space_ranges"

text \<open>\<open>replace(/\s+/g, ' ')\<close>: every maximal run of white space becomes one space.\<close>

function collapseSpaces :: "jsstring \<Rightarrow> jsstring" where
  "collapseSpaces [] = []"
| "collapseSpaces (c # t) =
     (if isSpace c then 32 # collapseSpaces (dropWhile isSpace t) else c # collapseSpaces t)"
  by pat_completeness auto
termination
  by (relation "measure length") (auto simp add: length_dropWhile_le less_Suc_eq_le)

definition trim :: "jsstring \<Rightarrow> jsstring" where
  "trim s = rev (dropWhile isSpace (rev (dropWhile isSpace s)))"

text \<open>
  \<open>normalizeText\<close>: lower case, then \<open>replace(/[^\w\s]/g, ' ')\<close>, then the white-space
  runs collapsed, then \<open>trim()\<close>. The class \<open>\w\<close> is ASCII only, so every letter
  beyond ASCII becomes a space.
\<close>

definition normalizeText :: "jsstring \<Rightarrow> jsstring" where
  "normalizeText text =
     trim (collapseSpaces
       (map (\<lambda>c. if in_ranges c word_ranges \<or> in_ranges c space_ranges then c else 32)
            (toLowerCase text)))"

text \<open>The number of entries of a keyword list that the text includes, in lower case.\<close>

definition keywordMatches :: "jsstring \<Rightarrow> jsstring list \<Rightarrow> nat" where
  "keywordMatches text keywords =
     length (filter (\<lambda>keyword. str_includes text (toLowerCase keyword)) keywords)"

definition patternMatches :: "jsstring \<Rightarrow> regex list \<Rightarrow> nat" where
  "patternMatches text ps = length (filter (\<lambda>pattern. rx_test pattern text) ps)"

text \<open>The loop over the companies, left at the first one the text includes.\<close>

definition firstCompany :: "jsstring \<Rightarrow> jsstring list \<Rightarrow> jsstring option" where
  "firstCompany text cs = find (\<lambda>company. str_includes text (toLowerCase company)) cs"

definition getCountryCompanies :: "Country \<Rightarrow> jsstring list" where
  "getCountryCompanies country =
     (case country of
        TR \<Rightarrow> [S ''TEDA'' @ [350], 304 # S ''GDA'' @ [350], 304 # S ''SK'' @ [304],
               S ''TURKCELL'', S ''VODAFONE'', S ''T'' @ 220 # S ''RK TELEKOM'']
      | DE \<Rightarrow> [S ''E.ON'', S ''RWE'', S ''VATTENFALL'', S ''TELEKOM'', S ''STADTWERKE'']
      | US \<Rightarrow> [S ''VERIZON'', S ''AT&T'', S ''COMCAST'', S ''PG&E'', S ''EDISON'']
      | UK \<Rightarrow> [S ''BT'', S ''SKY'', S ''BRITISH GAS'', S ''EDF ENERGY'']
      | _ \<Rightarrow> [])"

text \<open>
  The values the amount boost compares: the source asks whether the list of the two type
  names \<open>ELECTRICITY\<close> and \<open>GAS\<close> includes the rules object itself.
\<close>

datatype jsvalue = TypeName InvoiceType | RulesObject ClassificationKeywords

definition calculateContextBoost :: "ClassificationKeywords \<Rightarrow> Context \<Rightarrow> rat" where
  "calculateContextBoost rules context =
     (let boost = 0;
          boost =
            (if ctx_currency context = Some TRY
                \<and> list_ex (\<lambda>company. company \<in> set
                     [S ''TEDA'' @ [350], 304 # S ''GDA'' @ [350], 304 # S ''SK'' @ [304],
                      S ''TURKCELL'', S ''VODAFONE'']) (ck_companies rules)
             then dadd boost (dbl (1 / 10)) else boost);
          boost =
            (case ctx_amountHint context of
               None \<Rightarrow> boost
             | Some amountHint \<Rightarrow>
                 if amountHint \<noteq> 0 \<and> 100 < amountHint
                    \<and> RulesObject rules \<in> set [TypeName ELECTRICITY, TypeName GAS]
                 then dadd boost (dbl (5 / 100)) else boost);
          boost =
            (case ctx_country context of
               None \<Rightarrow> boost
             | Some country \<Rightarrow>
                 if list_ex (\<lambda>company. company \<in> set (getCountryCompanies country))
                      (ck_companies rules)
                 then dadd boost (dbl (1 / 10)) else boost)
      in boost)"

text \<open>
  \<open>calculateTypeScore\<close>, every operation on the score rounded as the doubles of the
  source are. The counts are integers, which are doubles; \<open>Math.max\<close> and \<open>Math.min\<close>
  select one of their arguments and do not round.
\<close>

definition calculateTypeScore ::
  "jsstring \<Rightarrow> ClassificationKeywords \<Rightarrow> Context option \<Rightarrow> rat \<times> CompanyMatch option" where
  "calculateTypeScore text rules context =
     (let score = 0;
          score = dadd score (dmul (of_nat (keywordMatches text (ck_primary rules))) (dbl (4 / 10)));
          score = dadd score (dmul (of_nat (keywordMatches text (ck_secondary rules))) (dbl (2 / 10)));
          score = dadd score (dmul (of_nat (patternMatches text (ck_patterns rules))) (dbl (3 / 10)));
          company = firstCompany text (ck_companies rules);
          score = (if company = None then score else dadd score (dbl (5 / 10)));
          companyMatch = map_option (\<lambda>c. \<lparr>cm_name = c, cm_confidence = 9 / 10\<rparr>) company;
          score = dsub score
                    (dmul (of_nat (keywordMatches text (ck_negativeKeywords rules))) (dbl (3 / 10)));
          score = (case context of
                     None \<Rightarrow> score
                   | Some ctx \<Rightarrow> dadd score (calculateContextBoost rules ctx));
          score = max 0 (min score 1)
      in (score, companyMatch))"

text \<open>
  The same computation in two steps, for the evaluation of concrete texts: the five
  signals \<open>calculateTypeScore\<close> reads off the text, and the arithmetic on them.
  Lemma \<open>calculateTypeScore_counts\<close> below shows that the two steps compose to
  \<open>calculateTypeScore\<close>.
\<close>

definition signalCounts ::
  "jsstring \<Rightarrow> ClassificationKeywords \<Rightarrow> nat \<times> nat \<times> nat \<times> jsstring option \<times> nat" where
  "signalCounts text rules =
     (keywordMatches text (ck_primary rules), keywordMatches text (ck_secondary rules),
      patternMatches text (ck_patterns rules), firstCompany text (ck_companies rules),
      keywordMatches text (ck_negativeKeywords rules))"

definition scoreFromCounts ::
  "nat \<times> nat \<times> nat \<times> jsstring option \<times> nat \<Rightarrow> rat option \<Rightarrow> rat \<times> CompanyMatch option" where
  "scoreFromCounts counts boost =
     (case counts of
        (primaryMatches, secondaryMatches, patternCount, company, negativeMatches) \<Rightarrow>
          (let score = 0;
               score = dadd score (dmul (of_nat primaryMatches) (dbl (4 / 10)));
               score = dadd score (dmul (of_nat secondaryMatches) (dbl (2 / 10)));
               score = dadd score (dmul (of_nat patternCount) (dbl (3 / 10)));
               score = (if company = None then score else dadd score (dbl (5 / 10)));
               companyMatch = map_option (\<lambda>c. \<lparr>cm_name = c, cm_confidence = 9 / 10\<rparr>) company;
               score = dsub score (dmul (of_nat negativeMatches) (dbl (3 / 10)));
               score = (case boost of None \<Rightarrow> score | Some b \<Rightarrow> dadd score b);
               score = max 0 (min score 1)
           in (score, companyMatch)))"

text \<open>
  The step of the \<open>reduce\<close> over the entries of \<open>scores\<close>, pairs of a type and its
  score: the accumulated entry is kept only when its score is strictly greater than that
  of the next entry.
\<close>

definition pickBest :: "InvoiceType \<times> rat \<Rightarrow> InvoiceType \<times> rat \<Rightarrow> InvoiceType \<times> rat" where
  "pickBest a b = (if snd b < snd a then a else b)"

text \<open>The update of \<open>bestCompany\<close> in the loop over the types.\<close>

definition betterCompany :: "CompanyMatch option \<Rightarrow> CompanyMatch option \<Rightarrow> CompanyMatch option" where
  "betterCompany bestCompany companyMatch =
     (case companyMatch of
        None \<Rightarrow> bestCompany
      | Some m \<Rightarrow>
          (case bestCompany of
             None \<Rightarrow> Some m
           | Some b \<Rightarrow> if cm_confidence b < cm_confidence m then Some m else Some b))"

text \<open>
  \<open>classifyBill\<close>: the loop computes the score of every type once, in the order of the
  table, and keeps the best company; the \<open>reduce\<close> then runs over the stored scores.
\<close>

definition classifyBill :: "jsstring \<Rightarrow> Context option \<Rightarrow> ClassificationResult" where
  "classifyBill text context =
     (let normalizedText = normalizeText text;
          results = map (\<lambda>t. (t, calculateTypeScore normalizedText (CLASSIFICATION_RULES t) context))
                        InvoiceType_entries;
          scores = map (\<lambda>e. (fst e, fst (snd e))) results;
          bestCompany = foldl (\<lambda>best e. betterCompany best (snd (snd e))) None results;
          best = foldl pickBest (hd scores) (tl scores);
          bestType = fst best;
          confidence = snd best
      in \<lparr>r_type = bestType, r_confidence = confidence,
          r_companyName = map_option cm_name bestCompany,
          r_companyConfidence = map_option cm_confidence bestCompany\<rparr>)"

text \<open>The final score of one type for a text and context, as stored by the loop.\<close>

definition typeScore :: "jsstring \<Rightarrow> Context option \<Rightarrow> InvoiceType \<Rightarrow> rat" where
  "typeScore text context t =
     fst (calculateTypeScore (normalizeText text) (CLASSIFICATION_RULES t) context)"

text \<open>
  A text carries no signal for a type when none of its primary or secondary keywords, none
  of its patterns and none of its company names matches the normalised text, and the
  context, when there is one, adds no boost for the type.
\<close>

definition noSignal :: "jsstring \<Rightarrow> Context option \<Rightarrow> InvoiceType \<Rightarrow> bool" where
  "noSignal text context t =
     (keywordMatches (normalizeText text) (ck_primary (CLASSIFICATION_RULES t)) = 0
      \<and> keywordMatches (normalizeText text) (ck_secondary (CLASSIFICATION_RULES t)) = 0
      \<and> patternMatches (normalizeText text) (ck_patterns (CLASSIFICATION_RULES t)) = 0
      \<and> firstCompany (normalizeText text) (ck_companies (CLASSIFICATION_RULES t)) = None
      \<and> (case context of
            None \<Rightarrow> True
          | Some c \<Rightarrow> calculateContextBoost (CLASSIFICATION_RULES t) c = 0))"

subsection \<open>Company extraction\<close>

text \<open>
  The two general patterns of \<open>extractCompanyName\<close>, both with the flag \<open>g\<close> only: a
  capitalised word before a legal-form word, and a run of words in capitals.
\<close>

definition upper_ranges :: "(int \<times> int) list" where
  "upper_ranges =
     [(65, 90), (199, 199), (286, 286), (304, 304), (214, 214), (350, 350), (220, 220)]"

definition lower_ranges :: "(int \<times> int) list" where
  "lower_ranges =
     [(97, 122), (231, 231), (287, 287), (305, 305), (246, 246), (351, 351), (252, 252)]"

definition companyPatterns :: "regex list" where
  "companyPatterns =
     [Grp 1 (rx_seq [Chars upper_ranges, Cat (Chars lower_ranges) (Star (Chars lower_ranges)),
                     rx_lit (S '' ''),
                     rx_alts [rx_lit (S ''Ltd''), rx_lit (S ''Inc''), rx_lit (S ''Corp''),
                              rx_lit (S ''Company''), rx_lit (350 # S ''irketi''),
                              rx_lit (S ''GmbH''), rx_lit (S ''AG'')]]),
      Grp 1 (rx_seq [Cat (rx_times 2 (Chars upper_ranges)) (Star (Chars upper_ranges)),
                     Star (rx_seq [Cat rx_space (Star rx_space),
                                   Cat (rx_times 2 (Chars upper_ranges))
                                       (Star (Chars upper_ranges))])])]"

text \<open>The \<open>reduce\<close> for the longest match: the later one wins among equal lengths.\<close>

definition longer :: "jsstring \<Rightarrow> jsstring \<Rightarrow> jsstring" where
  "longer a b = (if length b < length a then a else b)"

fun extractByPatterns :: "jsstring \<Rightarrow> regex list \<Rightarrow> CompanyMatch option" where
  "extractByPatterns text [] = None"
| "extractByPatterns text (pattern # rest) =
     (case map m_full (matchAll pattern text) of
        [] \<Rightarrow> extractByPatterns text rest
      | m # ms \<Rightarrow> Some \<lparr>cm_name = trim (foldl longer m ms), cm_confidence = 7 / 10\<rparr>)"

definition extractCompanyName :: "jsstring \<Rightarrow> InvoiceType option \<Rightarrow> CompanyMatch option" where
  "extractCompanyName text type =
     (let normalizedText = normalizeText text;
          known = (case type of
                     None \<Rightarrow> None
                   | Some t \<Rightarrow> firstCompany normalizedText (ck_companies (CLASSIFICATION_RULES t)))
      in case known of
           Some company \<Rightarrow> Some \<lparr>cm_name = company, cm_confidence = 95 / 100\<rparr>
         | None \<Rightarrow> extractByPatterns text companyPatterns)"

section \<open>Confidence calibration (AIBillClassifier.calibrateConfidence)\<close>

definition calibrateConfidence :: "rat \<Rightarrow> bool \<Rightarrow> bool \<Rightarrow> bool \<Rightarrow> rat" where
  "calibrateConfidence confidence hasAmount hasDate hasCompany =
     (let calibrated = confidence;
          calibrated = (if \<not> hasAmount then calibrated * (8 / 10) else calibrated);
          calibrated = (if \<not> hasDate then calibrated * (9 / 10) else calibrated);
          calibrated = (if \<not> hasCompany then calibrated * (85 / 100) else calibrated);
          calibrated = max calibrated (1 / 10)
      in min calibrated (98 / 100))"

text \<open>The formula of the specification, written as the specification words it.\<close>

definition spec_clamp :: "rat \<Rightarrow> rat \<Rightarrow> rat \<Rightarrow> rat" where
  "spec_clamp x lo hi = (if x < lo then lo else if hi < x then hi else x)"

definition spec_calibrated :: "rat \<Rightarrow> bool \<Rightarrow> bool \<Rightarrow> bool \<Rightarrow> rat" where
  "spec_calibrated raw hasAmount hasDate hasCompany =
     spec_clamp (raw * (if hasAmount then 1 else 8 / 10) * (if hasDate then 1 else 9 / 10)
                     * (if hasCompany then 1 else 85 / 100)) (1 / 10) (98 / 100)"

section \<open>Properties\<close>


text \<open>
  Claim C7. For every raw confidence and every combination of the three flags,
  \<open>calibrateConfidence\<close> equals the clamp formula of the specification, and the
  result lies in the interval from 0.1 to 0.98.
\<close>

theorem calibrateConfidence_is_clamp:
  "calibrateConfidence raw hasAmount hasDate hasCompany
     = spec_calibrated raw hasAmount hasDate hasCompany
   \<and> 1 / 10 \<le> calibrateConfidence raw hasAmount hasDate hasCompany
   \<and> calibrateConfidence raw hasAmount hasDate hasCompany \<le> 98 / 100"
  by (cases hasAmount; cases hasDate; cases hasCompany)
     (simp_all add: calibrateConfidence_def spec_calibrated_def spec_clamp_def Let_def
        max_def min_def)




subsection \<open>Resolving the decimal separator\<close>

lemma rx_test_iff: "rx_test r s \<longleftrightarrow> (\<exists>p t. s = p @ t \<and> rmatch r t [] \<noteq> [])"
proof (induction s)
  case Nil
  then show ?case by simp
next
  case (Cons x s)
  show ?case
  proof
    assume "rx_test r (x # s)"
    then consider "rmatch r (x # s) [] \<noteq> []" | "rx_test r s" by auto
    then show "\<exists>p t. x # s = p @ t \<and> rmatch r t [] \<noteq> []"
    proof cases
      case 1
      then have "x # s = [] @ (x # s) \<and> rmatch r (x # s) [] \<noteq> []" by simp
      then show ?thesis by blast
    next
      case 2
      with Cons.IH obtain p t where "s = p @ t" "rmatch r t [] \<noteq> []" by blast
      then have "x # s = (x # p) @ t \<and> rmatch r t [] \<noteq> []" by simp
      then show ?thesis by blast
    qed
  next
    assume "\<exists>p t. x # s = p @ t \<and> rmatch r t [] \<noteq> []"
    then obtain p t where pt: "x # s = p @ t" "rmatch r t [] \<noteq> []" by blast
    show "rx_test r (x # s)"
    proof (cases p)
      case Nil
      with pt have "rmatch r (x # s) [] \<noteq> []" by simp
      then show ?thesis by simp
    next
      case (Cons y q)
      with pt have "s = q @ t" by simp
      with pt(2) Cons.IH have "rx_test r s" by blast
      then show ?thesis by simp
    qed
  qed
qed

lemma sep2_end_match:
  "rmatch (rx_seq [rx_chr k, rx_times 2 rx_digit, Eos]) t [] \<noteq> []
     \<longleftrightarrow> (\<exists>d1 d2. t = [k, d1, d2] \<and> isDigit d1 \<and> isDigit d2)"
  by (auto simp add: rx_chr_def rx_digit_def in_ranges_def isDigit_def numeral_2_eq_2
        split: list.splits if_splits)

lemma rx_test_sep2_end:
  "rx_test (rx_seq [rx_chr k, rx_times 2 rx_digit, Eos]) s
     \<longleftrightarrow> (\<exists>p d1 d2. s = p @ [k, d1, d2] \<and> isDigit d1 \<and> isDigit d2)"
  unfolding rx_test_iff sep2_end_match by blast


lemma ends_sep2_iff:
  "ends_sep2 k s \<longleftrightarrow> (\<exists>p d1 d2. s = p @ [k, d1, d2] \<and> isDigit d1 \<and> isDigit d2)"
proof
  assume "ends_sep2 k s"
  then obtain d2 d1 q where r: "rev s = d2 # d1 # k # q" and d: "isDigit d1" "isDigit d2"
    by (auto simp add: ends_sep2_def split: list.splits)
  from r have "s = rev q @ [k, d1, d2]" by (simp add: rev_swap)
  with d show "\<exists>p d1 d2. s = p @ [k, d1, d2] \<and> isDigit d1 \<and> isDigit d2" by blast
next
  assume "\<exists>p d1 d2. s = p @ [k, d1, d2] \<and> isDigit d1 \<and> isDigit d2"
  then show "ends_sep2 k s" by (auto simp add: ends_sep2_def)
qed

lemma rx_test_comma2: "rx_test comma2_end s = ends_sep2 44 s"
  unfolding comma2_end_def rx_test_sep2_end ends_sep2_iff ..

lemma rx_test_period2: "rx_test period2_end s = ends_sep2 46 s"
  unfolding period2_end_def rx_test_sep2_end ends_sep2_iff ..

lemma not_digit_sep [simp]: "\<not> isDigit 44" "\<not> isDigit 46"
  by (simp_all add: isDigit_def)

lemma parseFloat_period:
  assumes "list_all isDigit ds" "list_all isDigit fs" "ds \<noteq> [] \<or> fs \<noteq> []"
  shows "parseFloat (ds @ 46 # fs)
           = Some (of_int (digits_val ds) + of_int (digits_val fs) / 10 ^ length fs)"
proof -
  have t: "takeWhile isDigit (ds @ 46 # fs) = ds"
    using assms(1) by (simp add: list_all_iff takeWhile_append2)
  have d: "dropWhile isDigit (ds @ 46 # fs) = 46 # fs"
    using assms(1) by (simp add: list_all_iff dropWhile_append2)
  have f: "takeWhile isDigit fs = fs"
    using assms(2) by (simp add: list_all_iff)
  show ?thesis using assms(3) by (auto simp add: parseFloat_def t d f)
qed

lemma filter_keep_digits:
  assumes "list_all (\<lambda>c. isDigit c \<or> c = k) ip" "\<not> isDigit k"
  shows "filter (\<lambda>c. c \<noteq> k) ip = filter isDigit ip"
  using assms by (induction ip) auto

lemma filter_clean_id:
  assumes "list_all (\<lambda>c. isDigit c \<or> c = k) ip" "k = 46 \<or> k = 44"
  shows "filter (\<lambda>c. isDigit c \<or> c = 46 \<or> c = 44) ip = ip"
  using assms by (induction ip) auto

lemma replaceFirst_append:
  "a \<notin> set ds \<Longrightarrow> replaceFirst a b (ds @ a # t) = ds @ b # t"
  by (induction ds) auto

lemma digits_no_sep: "list_all isDigit ds \<Longrightarrow> 44 \<notin> set ds \<and> 46 \<notin> set ds"
  by (induction ds) auto

lemma list_all_filter_digit: "list_all isDigit (filter isDigit ip)"
  by (induction ip) auto

lemma comma_rule:
  assumes ip: "list_all (\<lambda>c. isDigit c \<or> c = 46) ip" and fp: "list_all isDigit fp"
    and ne: "filter isDigit ip \<noteq> [] \<or> fp \<noteq> []"
  shows "parseFloat (replaceFirst 44 46 (filter (\<lambda>c. c \<noteq> 46) (ip @ 44 # fp)))
           = Some (decimal_reading ip fp)"
proof -
  have 1: "filter (\<lambda>c. c \<noteq> 46) (ip @ 44 # fp) = filter isDigit ip @ 44 # fp"
    using filter_keep_digits [OF ip] digits_no_sep [OF fp]
    by (auto simp add: filter_id_conv)
  have 2: "replaceFirst 44 46 (filter isDigit ip @ 44 # fp) = filter isDigit ip @ 46 # fp"
    using digits_no_sep [OF list_all_filter_digit [of ip]] by (simp add: replaceFirst_append)
  show ?thesis
    unfolding 1 2 decimal_reading_def
    using parseFloat_period [OF list_all_filter_digit fp ne] .
qed

lemma period_rule:
  assumes ip: "list_all (\<lambda>c. isDigit c \<or> c = 44) ip" and fp: "list_all isDigit fp"
    and ne: "filter isDigit ip \<noteq> [] \<or> fp \<noteq> []"
  shows "parseFloat (filter (\<lambda>c. c \<noteq> 44) (ip @ 46 # fp)) = Some (decimal_reading ip fp)"
proof -
  have 1: "filter (\<lambda>c. c \<noteq> 44) (ip @ 46 # fp) = filter isDigit ip @ 46 # fp"
    using filter_keep_digits [OF ip] digits_no_sep [OF fp]
    by (auto simp add: filter_id_conv)
  show ?thesis
    unfolding 1 decimal_reading_def
    using parseFloat_period [OF list_all_filter_digit fp ne] .
qed

lemma clean_append:
  assumes "list_all (\<lambda>c. isDigit c \<or> c = k) ip" "k = 46 \<or> k = 44" "list_all isDigit fp"
    "j = 46 \<or> j = 44"
  shows "filter (\<lambda>c. isDigit c \<or> c = 46 \<or> c = 44) (ip @ j # fp) = ip @ j # fp"
proof -
  have "filter (\<lambda>c. isDigit c \<or> c = 46 \<or> c = 44) fp = fp"
    using assms(3) by (induction fp) auto
  then show ?thesis using filter_clean_id [OF assms(1,2)] assms(4) by auto
qed

lemma takeWhile_digit_clean:
  "list_all (\<lambda>c. isDigit c \<or> c = 46 \<or> c = 44) s \<Longrightarrow>
     takeWhile isDigit (filter (\<lambda>c. c \<noteq> 44) s) = filter isDigit (takeWhile (\<lambda>c. c \<noteq> 46) s)"
  by (induction s) auto

lemma dropWhile_digit_clean:
  "list_all (\<lambda>c. isDigit c \<or> c = 46 \<or> c = 44) s \<Longrightarrow>
     dropWhile isDigit (filter (\<lambda>c. c \<noteq> 44) s)
       = filter (\<lambda>c. c \<noteq> 44) (dropWhile (\<lambda>c. c \<noteq> 46) s)"
  by (induction s) auto

lemma parseFloat_commas_dropped:
  assumes c: "list_all (\<lambda>c. isDigit c \<or> c = 46 \<or> c = 44) s"
  shows "parseFloat (filter (\<lambda>c. c \<noteq> 44) s)
        = (let ip = takeWhile (\<lambda>c. c \<noteq> 46) s;
               fp = filter isDigit
                      (takeWhile (\<lambda>c. c \<noteq> 46) (drop 1 (dropWhile (\<lambda>c. c \<noteq> 46) s)))
           in if filter isDigit ip = [] \<and> fp = [] then None
              else Some (decimal_reading ip fp))"
proof -
  let ?t = "filter (\<lambda>c. c \<noteq> 44) s"
  let ?d = "dropWhile (\<lambda>c. c \<noteq> 46) s"
  have fp: "(case dropWhile isDigit ?t of [] \<Rightarrow> []
             | x # u \<Rightarrow> if x = 46 then takeWhile isDigit u else [])
            = filter isDigit (takeWhile (\<lambda>c. c \<noteq> 46) (drop 1 ?d))"
  proof (cases ?d)
    case Nil
    show ?thesis unfolding dropWhile_digit_clean [OF c] Nil by simp
  next
    case (Cons x rest)
    then have x: "x = 46" using hd_dropWhile [of "\<lambda>c. c \<noteq> 46" s] by auto
    have "set rest \<subseteq> set s"
      using set_dropWhileD [of _ "\<lambda>c. c \<noteq> 46" s] Cons by auto
    then have r: "list_all (\<lambda>c. isDigit c \<or> c = 46 \<or> c = 44) rest"
      using c by (auto simp add: list_all_iff)
    show ?thesis
      unfolding dropWhile_digit_clean [OF c] Cons x
      by (simp add: takeWhile_digit_clean [OF r])
  qed
  show ?thesis
    unfolding parseFloat_def Let_def takeWhile_digit_clean [OF c] fp decimal_reading_def
    by simp
qed

lemma auto_fallback_reading:
  assumes "list_all (\<lambda>c. isDigit c \<or> c = 46 \<or> c = 44) s
        \<and> \<not> ends_sep2 44 s \<and> \<not> ends_sep2 46 s"
  shows "parseNumericAmount s (S ''auto'')
        = (let ip = takeWhile (\<lambda>c. c \<noteq> 46) s;
               fp = filter isDigit
                      (takeWhile (\<lambda>c. c \<noteq> 46) (drop 1 (dropWhile (\<lambda>c. c \<noteq> 46) s)))
           in if filter isDigit ip = [] \<and> fp = [] then None
              else Some (decimal_reading ip fp))"
proof -
  have c: "filter (\<lambda>c. isDigit c \<or> c = 46 \<or> c = 44) s = s"
    using assms by (simp add: filter_id_conv list_all_iff)
  have "parseNumericAmount s (S ''auto'') = parseFloat (filter (\<lambda>c. c \<noteq> 44) s)"
    using assms by (simp add: parseNumericAmount_def Let_def c rx_test_comma2 rx_test_period2)
  then show ?thesis using parseFloat_commas_dropped assms by simp
qed

text \<open>
  Claim C5 as stated fails in its last part: in the automatic mode, the only mode
  \<open>parseAmountAdvanced\<close> uses, a string that meets neither suffix rule is read with
  the period as decimal separator, not by the convention of the locale. The string
  \<open>1.234\<close> is 1.234 there, where the comma-decimal convention reads 1234, also for a
  euro amount under the hint country DE.
\<close>

theorem parseNumericAmount_fallback_counterexample:
  "parseNumericAmount (S ''1.234'') (S ''auto'') = Some (1234 / 1000)
   \<and> spec_resolve CommaDecimal (S ''1.234'') = Some 1234
   \<and> parseNumericAmount (S ''1.234'') (S ''auto'') \<noteq> spec_resolve CommaDecimal (S ''1.234'')
   \<and> parseAmountAdvanced (8364 # S ''1.234'')
         (Some \<lparr>h_currency = None, h_country = Some (S ''DE'')\<rparr>)
       = Some \<lparr>a_value = 1234 / 1000, a_currency = EUR, a_raw = S ''1.234''\<rparr>"
  by code_simp

text \<open>
  Claim C5, amended. In the automatic mode, on a string of digits, commas and periods:
  a string that ends in a comma and two digits and holds no other comma is read with the
  comma as decimal separator and the periods as thousands separators; a string that ends
  in a period and two digits and holds no other period is read with the period as
  decimal separator and the commas as thousands separators; a string that ends neither
  in a comma and two digits nor in a period and two digits is read period-decimal,
  whatever the locale: the commas are dropped, the digits before the first period are the
  integer part and the digits between the first period and a second one (or the end) are
  the fraction, so that a string of digits and commas is the integer of its digits. With
  a locale key (the mode of \<open>parseAmount\<close>) no suffix rule applies: under a key that
  contains DE or TR a string with one comma, digits and periods before it and digits
  after it is read comma-decimal; under any other key a string with one period, digits
  and commas before it and digits after it is read period-decimal.
\<close>

theorem parseNumericAmount_resolution:
  "(list_all (\<lambda>c. isDigit c \<or> c = 46) ip \<and> isDigit d1 \<and> isDigit d2 \<longrightarrow>
      parseNumericAmount (ip @ [44, d1, d2]) (S ''auto'') = Some (decimal_reading ip [d1, d2]))
   \<and> (list_all (\<lambda>c. isDigit c \<or> c = 44) jp \<and> isDigit d1 \<and> isDigit d2 \<longrightarrow>
      parseNumericAmount (jp @ [46, d1, d2]) (S ''auto'') = Some (decimal_reading jp [d1, d2]))
   \<and> (list_all (\<lambda>c. isDigit c \<or> c = 46 \<or> c = 44) s
        \<and> \<not> ends_sep2 44 s \<and> \<not> ends_sep2 46 s \<longrightarrow>
      parseNumericAmount s (S ''auto'')
        = (let ip = takeWhile (\<lambda>c. c \<noteq> 46) s;
               fp = filter isDigit
                      (takeWhile (\<lambda>c. c \<noteq> 46) (drop 1 (dropWhile (\<lambda>c. c \<noteq> 46) s)))
           in if filter isDigit ip = [] \<and> fp = [] then None
              else Some (decimal_reading ip fp)))
   \<and> (list_all (\<lambda>c. isDigit c \<or> c = 44) n \<and> filter isDigit n \<noteq> []
        \<and> \<not> ends_sep2 44 n \<longrightarrow>
      parseNumericAmount n (S ''auto'') = Some (of_int (digits_val (filter isDigit n))))
   \<and> (list_all (\<lambda>c. isDigit c \<or> c = 44) jp \<and> list_all isDigit fp
        \<and> (filter isDigit jp \<noteq> [] \<or> fp \<noteq> []) \<and> key \<noteq> S ''auto''
        \<and> \<not> str_includes key (S ''DE'') \<and> \<not> str_includes key (S ''TR'') \<longrightarrow>
      parseNumericAmount (jp @ 46 # fp) key = Some (decimal_reading jp fp))
   \<and> (list_all (\<lambda>c. isDigit c \<or> c = 46) ip \<and> list_all isDigit fp
        \<and> (filter isDigit ip \<noteq> [] \<or> fp \<noteq> []) \<and> dkey \<noteq> S ''auto''
        \<and> (str_includes dkey (S ''DE'') \<or> str_includes dkey (S ''TR'')) \<longrightarrow>
      parseNumericAmount (ip @ 44 # fp) dkey = Some (decimal_reading ip fp))"
proof (intro conjI impI)
  assume a: "list_all (\<lambda>c. isDigit c \<or> c = 46) ip \<and> isDigit d1 \<and> isDigit d2"
  then have fp: "list_all isDigit [d1, d2]" by simp
  have c: "filter (\<lambda>c. isDigit c \<or> c = 46 \<or> c = 44) (ip @ [44, d1, d2]) = ip @ [44, d1, d2]"
    using clean_append [of 46 ip "[d1, d2]" 44] a by simp
  have e: "ends_sep2 44 (ip @ [44, d1, d2])"
    using a by (auto simp add: ends_sep2_iff)
  show "parseNumericAmount (ip @ [44, d1, d2]) (S ''auto'') = Some (decimal_reading ip [d1, d2])"
    using comma_rule [of ip "[d1, d2]"] a fp
    by (simp add: parseNumericAmount_def Let_def c rx_test_comma2 e del: filter_append filter.simps)
next
  assume a: "list_all (\<lambda>c. isDigit c \<or> c = 44) jp \<and> isDigit d1 \<and> isDigit d2"
  then have fp: "list_all isDigit [d1, d2]" by simp
  have c: "filter (\<lambda>c. isDigit c \<or> c = 46 \<or> c = 44) (jp @ [46, d1, d2]) = jp @ [46, d1, d2]"
    using clean_append [of 44 jp "[d1, d2]" 46] a by simp
  have e: "ends_sep2 46 (jp @ [46, d1, d2])" "\<not> ends_sep2 44 (jp @ [46, d1, d2])"
    using a by (auto simp add: ends_sep2_iff)
  show "parseNumericAmount (jp @ [46, d1, d2]) (S ''auto'') = Some (decimal_reading jp [d1, d2])"
    using period_rule [of jp "[d1, d2]"] a fp
    by (simp add: parseNumericAmount_def Let_def c rx_test_comma2 rx_test_period2 e
          del: filter_append filter.simps)
next
  assume a: "list_all (\<lambda>c. isDigit c \<or> c = 46 \<or> c = 44) s
        \<and> \<not> ends_sep2 44 s \<and> \<not> ends_sep2 46 s"
  then show "parseNumericAmount s (S ''auto'')
        = (let ip = takeWhile (\<lambda>c. c \<noteq> 46) s;
               fp = filter isDigit
                      (takeWhile (\<lambda>c. c \<noteq> 46) (drop 1 (dropWhile (\<lambda>c. c \<noteq> 46) s)))
           in if filter isDigit ip = [] \<and> fp = [] then None
              else Some (decimal_reading ip fp))"
    by (rule auto_fallback_reading)
next
  assume a: "list_all (\<lambda>c. isDigit c \<or> c = 44) n \<and> filter isDigit n \<noteq> []
        \<and> \<not> ends_sep2 44 n"
  then have c: "list_all (\<lambda>c. isDigit c \<or> c = 46 \<or> c = 44) n"
    by (auto simp add: list_all_iff)
  have p: "46 \<notin> set n" using a by (auto simp add: list_all_iff)
  then have t: "takeWhile (\<lambda>c. c \<noteq> 46) n = n" "dropWhile (\<lambda>c. c \<noteq> 46) n = []"
    by (auto simp add: takeWhile_eq_all_conv dropWhile_eq_Nil_conv)
  have e: "\<not> ends_sep2 46 n" using p by (auto simp add: ends_sep2_iff)
  show "parseNumericAmount n (S ''auto'') = Some (of_int (digits_val (filter isDigit n)))"
    using auto_fallback_reading [of n] a c e
    by (simp add: t Let_def decimal_reading_def digits_val_def)
next
  assume a: "list_all (\<lambda>c. isDigit c \<or> c = 44) jp \<and> list_all isDigit fp
        \<and> (filter isDigit jp \<noteq> [] \<or> fp \<noteq> []) \<and> key \<noteq> S ''auto''
        \<and> \<not> str_includes key (S ''DE'') \<and> \<not> str_includes key (S ''TR'')"
  have c: "filter (\<lambda>c. isDigit c \<or> c = 46 \<or> c = 44) (jp @ 46 # fp) = jp @ 46 # fp"
    using clean_append [of 44 jp fp 46] a by simp
  show "parseNumericAmount (jp @ 46 # fp) key = Some (decimal_reading jp fp)"
    using period_rule [of jp fp] a
    by (simp add: parseNumericAmount_def Let_def c del: filter_append filter.simps)
next
  assume a: "list_all (\<lambda>c. isDigit c \<or> c = 46) ip \<and> list_all isDigit fp
        \<and> (filter isDigit ip \<noteq> [] \<or> fp \<noteq> []) \<and> dkey \<noteq> S ''auto''
        \<and> (str_includes dkey (S ''DE'') \<or> str_includes dkey (S ''TR''))"
  have c: "filter (\<lambda>c. isDigit c \<or> c = 46 \<or> c = 44) (ip @ 44 # fp) = ip @ 44 # fp"
    using clean_append [of 46 ip fp 44] a by simp
  show "parseNumericAmount (ip @ 44 # fp) dkey = Some (decimal_reading ip fp)"
    using comma_rule [of ip fp] a
    by (simp add: parseNumericAmount_def Let_def c del: filter_append filter.simps)
qed
theorem parseNumericAmount_resolution_witness:
  "parseNumericAmount (S ''1.234,56'') (S ''auto'') = Some (123456 / 100)
   \<and> parseNumericAmount (S ''1,234.56'') (S ''auto'') = Some (123456 / 100)
   \<and> parseNumericAmount (S ''1.234'') (S ''auto'') = Some (1234 / 1000)
   \<and> parseNumericAmount (S ''12,345'') (S ''auto'') = Some 12345
   \<and> parseNumericAmount (S ''1,234.5'') (S ''en-US'') = Some (12345 / 10)
   \<and> parseNumericAmount (S ''1.234,5'') (S ''de-DE'') = Some (12345 / 10)"
  using parseNumericAmount_resolution [where ip = "S ''1.234''" and ?d1.0 = 53 and ?d2.0 = 54
      and jp = "S ''1,234''" and s = "S ''1.234''" and n = "S ''12,345''"
      and key = "S ''en-US''" and fp = "S ''5''" and dkey = "S ''de-DE''"]
  by (simp add: isDigit_def ends_sep2_def decimal_reading_def digits_val_def)

subsection \<open>Amount extraction\<close>

text \<open>
  Claim C10. There is an input on which the extracted value appears nowhere in the text
  as an amount: every number shape admits one to three leading digits and then only
  separator-led groups, so on \<open>$1234.56\<close> without hints the first dollar pattern
  matches \<open>$123\<close> and \<open>parseAmountAdvanced\<close> returns the value 123 in USD. The same
  happens behind the euro, lira and pound signs.
\<close>

theorem parseAmountAdvanced_truncates:
  "parseAmountAdvanced (S ''$1234.56'') None
     = Some \<lparr>a_value = 123, a_currency = USD, a_raw = S ''123''\<rparr>
   \<and> parseAmountAdvanced (8364 # S ''1234,56'') None
     = Some \<lparr>a_value = 123, a_currency = EUR, a_raw = S ''123''\<rparr>
   \<and> parseAmountAdvanced (8378 # S ''1234,56'') None
     = Some \<lparr>a_value = 123, a_currency = TRY, a_raw = S ''123''\<rparr>
   \<and> parseAmountAdvanced (163 # S ''1234.56'') None
     = Some \<lparr>a_value = 123, a_currency = GBP, a_raw = S ''123''\<rparr>"
  by code_simp

text \<open>
  Claim C4 at the input \<open>$5 10 TL\<close> with the hint country TR and no hint currency:
  the primary currency of TR is TRY and the lira patterns find the amount 10, yet the
  result is the dollar amount 5, because the currencies are tried in the order of
  \<open>globalPatterns\<close> (USD, EUR, TRY, GBP) whatever the country.
\<close>

theorem parseAmountAdvanced_ignores_primary:
  "getPrimaryCurrency (S ''TR'') = TRY
   \<and> tryParseWithPatterns (S ''$5 10 TL'') TRY (the (map_of globalPatterns TRY))
     = Some \<lparr>a_value = 10, a_currency = TRY, a_raw = S ''10''\<rparr>
   \<and> parseAmountAdvanced (S ''$5 10 TL'') (Some \<lparr>h_currency = None, h_country = Some (S ''TR'')\<rparr>)
     = Some \<lparr>a_value = 5, a_currency = USD, a_raw = S ''5''\<rparr>
   \<and> parseAmount (Some \<lparr>l_languageCode = S ''tr'', l_countryCode = S ''TR''\<rparr>) (S ''$5 10 TL'')
     = Some \<lparr>a_value = 10, a_currency = TRY, a_raw = S ''10''\<rparr>"
  by code_simp

text \<open>
  Claim C6 at the input \<open>$5.00 USD 100.00\<close> without hints: the second dollar pattern
  matches the amount 100, but the first pattern already has a valid match, and
  \<open>tryParseWithPatterns\<close> returns from inside its loop over the patterns with the
  value 5. With one pattern per currency, as in \<open>parseAmount\<close>, the largest match over
  all surface forms is returned: 100 for the euro text below, where
  \<open>parseAmountAdvanced\<close> returns 5.
\<close>

theorem tryParseWithPatterns_first_pattern_only:
  "map (\<lambda>m. parseNumericAmount (amountStr_of [1, 2] m) (S ''auto''))
       (matchAll (prefixed (S ''USD'') 1 num_us) (S ''$5.00 USD 100.00'')) = [Some 100]
   \<and> parseAmountAdvanced (S ''$5.00 USD 100.00'') None
     = Some \<lparr>a_value = 5, a_currency = USD, a_raw = S ''5.00''\<rparr>
   \<and> parseAmountAdvanced (8364 # S ''5 100 '' @ [8364]) None
     = Some \<lparr>a_value = 5, a_currency = EUR, a_raw = S ''5''\<rparr>
   \<and> parseAmount (Some \<lparr>l_languageCode = S ''de'', l_countryCode = S ''DE''\<rparr>)
         (8364 # S ''5 100 '' @ [8364])
     = Some \<lparr>a_value = 100, a_currency = EUR, a_raw = S ''100''\<rparr>"
  by code_simp

subsection \<open>Due-date extraction\<close>

text \<open>
  Claim C2 at the input \<open>30.02.2024\<close> under the locale de-DE (and at \<open>Zahlbar bis
  31.04.2024\<close>): day 30 and month 2 pass the field test, the date constructor counts on
  into March, and the test for an invalid date never fails, so the candidate is surfaced
  as the first of March with the raw text of the thirtieth of February. Day 32, month 13
  and a year before 2020 are rejected.
\<close>

theorem parseDate_surfaces_Feb_30:
  "parseDate (Some \<lparr>l_languageCode = S ''de'', l_countryCode = S ''DE''\<rparr>) (S ''30.02.2024'')
     = Some \<lparr>d_date = \<lparr>cd_year = 2024, cd_month = 3, cd_day = 1\<rparr>,
              d_raw = S ''30.02.2024'', d_format = S ''DD.MM.YYYY''\<rparr>
   \<and> parseDate (Some \<lparr>l_languageCode = S ''de'', l_countryCode = S ''DE''\<rparr>)
         (S ''Zahlbar bis 31.04.2024'')
     = Some \<lparr>d_date = \<lparr>cd_year = 2024, cd_month = 5, cd_day = 1\<rparr>,
              d_raw = S ''31.04.2024'', d_format = S ''DD.MM.YYYY''\<rparr>
   \<and> parseDate (Some \<lparr>l_languageCode = S ''de'', l_countryCode = S ''DE''\<rparr>) (S ''32.01.2024'')
     = None
   \<and> parseDate (Some \<lparr>l_languageCode = S ''de'', l_countryCode = S ''DE''\<rparr>) (S ''15.13.2024'')
     = None
   \<and> parseDate (Some \<lparr>l_languageCode = S ''de'', l_countryCode = S ''DE''\<rparr>) (S ''15.03.2019'')
     = None"
  by code_simp

subsection \<open>Bill-type classification\<close>

lemma foldl_pickBest:
  fixes idx :: "InvoiceType \<Rightarrow> nat"
  assumes "sorted_wrt (<) (map idx (x # xs))"
  shows "\<exists>b \<in> set (x # xs).
           foldl pickBest (x, f x) (map (\<lambda>t. (t, f t)) xs) = (b, f b)
           \<and> (\<forall>t \<in> set (x # xs). f t \<le> f b \<and> (f t = f b \<longrightarrow> idx t \<le> idx b))"
  using assms
proof (induction xs rule: rev_induct)
  case Nil
  then show ?case by simp
next
  case (snoc y ys)
  from snoc.prems have s: "sorted_wrt (<) (map idx (x # ys))"
    and lt: "\<forall>t \<in> set (x # ys). idx t < idx y"
    by (auto simp add: sorted_wrt_append)
  from snoc.IH [OF s] obtain b where b: "b \<in> set (x # ys)"
    and e: "foldl pickBest (x, f x) (map (\<lambda>t. (t, f t)) ys) = (b, f b)"
    and m: "\<forall>t \<in> set (x # ys). f t \<le> f b \<and> (f t = f b \<longrightarrow> idx t \<le> idx b)"
    by blast
  show ?case
  proof (cases "f y < f b")
    case True
    then have "foldl pickBest (x, f x) (map (\<lambda>t. (t, f t)) (ys @ [y])) = (b, f b)"
      by (simp add: e pickBest_def)
    moreover have "\<forall>t \<in> set (x # ys @ [y]). f t \<le> f b \<and> (f t = f b \<longrightarrow> idx t \<le> idx b)"
      using m True by auto
    ultimately show ?thesis using b by auto
  next
    case False
    then have "foldl pickBest (x, f x) (map (\<lambda>t. (t, f t)) (ys @ [y])) = (y, f y)"
      by (simp add: e pickBest_def)
    moreover have "\<forall>t \<in> set (x # ys). f t \<le> f y \<and> idx t \<le> idx y"
      using m lt False by (metis less_imp_le not_less order_trans)
    then have "\<forall>t \<in> set (x # ys @ [y]). f t \<le> f y \<and> (f t = f y \<longrightarrow> idx t \<le> idx y)"
      by auto
    ultimately show ?thesis by auto
  qed
qed

lemma InvoiceType_entries_all: "t \<in> set InvoiceType_entries"
  by (cases t) (simp_all add: InvoiceType_entries_def)

lemma InvoiceType_entries_sorted: "sorted_wrt (<) (map declIndex InvoiceType_entries)"
  by (simp add: InvoiceType_entries_def declIndex_def)

lemma InvoiceType_entries_split:
  "InvoiceType_entries = ELECTRICITY # tl InvoiceType_entries"
  by (simp add: InvoiceType_entries_def)

text \<open>The result of \<open>classifyBill\<close> from the results the loop stores per type.\<close>

lemma classifyBill_unfold:
  "classifyBill text context =
     (let rs = map (\<lambda>t. calculateTypeScore (normalizeText text) (CLASSIFICATION_RULES t) context)
                   InvoiceType_entries;
          scores = zip InvoiceType_entries (map fst rs);
          bestCompany = foldl betterCompany None (map snd rs);
          best = foldl pickBest (hd scores) (tl scores)
      in \<lparr>r_type = fst best, r_confidence = snd best,
          r_companyName = map_option cm_name bestCompany,
          r_companyConfidence = map_option cm_confidence bestCompany\<rparr>)"
  by (simp add: classifyBill_def Let_def zip_map2 zip_same_conv_map foldl_map o_def case_prod_unfold)

lemma classifyBill_best:
  "\<exists>b. (r_type (classifyBill text context), r_confidence (classifyBill text context))
          = (b, typeScore text context b)
       \<and> (\<forall>t. typeScore text context t \<le> typeScore text context b
              \<and> (typeScore text context t = typeScore text context b \<longrightarrow> declIndex t \<le> declIndex b))"
proof -
  let ?f = "typeScore text context"
  have "sorted_wrt (<) (map declIndex (ELECTRICITY # tl InvoiceType_entries))"
    using InvoiceType_entries_sorted InvoiceType_entries_split by simp
  from foldl_pickBest [OF this, of ?f]
  obtain b where e: "foldl pickBest (ELECTRICITY, ?f ELECTRICITY)
                        (map (\<lambda>t. (t, ?f t)) (tl InvoiceType_entries)) = (b, ?f b)"
    and m: "\<forall>t \<in> set (ELECTRICITY # tl InvoiceType_entries).
               ?f t \<le> ?f b \<and> (?f t = ?f b \<longrightarrow> declIndex t \<le> declIndex b)"
    by blast
  have sc: "map (\<lambda>e. (fst e, fst (snd e)))
              (map (\<lambda>t. (t, calculateTypeScore (normalizeText text) (CLASSIFICATION_RULES t) context))
                 InvoiceType_entries)
            = map (\<lambda>t. (t, ?f t)) InvoiceType_entries"
    by (simp add: typeScore_def o_def)
  have h: "map (\<lambda>t. (t, ?f t)) InvoiceType_entries
            = (ELECTRICITY, ?f ELECTRICITY) # map (\<lambda>t. (t, ?f t)) (tl InvoiceType_entries)"
    by (simp add: InvoiceType_entries_def)
  have "(r_type (classifyBill text context), r_confidence (classifyBill text context)) = (b, ?f b)"
    unfolding classifyBill_def Let_def sc by (simp add: h e)
  moreover have "\<forall>t. ?f t \<le> ?f b \<and> (?f t = ?f b \<longrightarrow> declIndex t \<le> declIndex b)"
    using m InvoiceType_entries_all InvoiceType_entries_split by metis
  ultimately show ?thesis by blast
qed

text \<open>The two steps compose, and rounding keeps the sign.\<close>

lemma calculateTypeScore_counts:
  "calculateTypeScore text rules context
     = scoreFromCounts (signalCounts text rules) (map_option (calculateContextBoost rules) context)"
  by (simp add: calculateTypeScore_def scoreFromCounts_def signalCounts_def Let_def
        split: option.splits)

lemma dbl_zero [simp]: "dbl 0 = 0"
  by (simp add: dbl_def)

lemma roundHalfEven_nonneg: "0 \<le> n \<Longrightarrow> 0 < d \<Longrightarrow> 0 \<le> roundHalfEven n d"
  by (simp add: roundHalfEven_def Let_def pos_imp_zdiv_nonneg_iff)

lemma dbl_sign:
  "(0 \<le> x \<longrightarrow> 0 \<le> dbl x) \<and> (x \<le> 0 \<longrightarrow> dbl x \<le> 0)"
proof -
  obtain p q where pq: "quotient_of x = (p, q)" by (cases "quotient_of x")
  then have q: "0 < q" by (rule quotient_of_denom_pos)
  from pq have x: "x = of_int p / of_int q" by (rule quotient_of_div)
  have sx: "(0 \<le> x) = (0 \<le> p)" "(x \<le> 0) = (p \<le> 0)"
    using q by (simp_all add: x zero_le_divide_iff divide_le_0_iff)
  define a where "a = \<bar>p\<bar>"
  define k where "k = int (bitLength a) - int (bitLength q)"
  define e where "e = (if (if 0 \<le> k then q * 2 ^ nat k \<le> a else q \<le> a * 2 ^ nat (- k))
                      then k else k - 1)"
  define s where "s = 52 - e"
  define m where "m = (if 0 \<le> s then roundHalfEven (a * 2 ^ nat s) q
                      else roundHalfEven a (q * 2 ^ nat (- s)))"
  define M :: rat where "M = (if 0 \<le> s then of_int m / 2 ^ nat s else of_int (m * 2 ^ nat (- s)))"
  have a0: "0 \<le> a" by (simp add: a_def)
  have m0: "0 \<le> m"
    unfolding m_def using a0 q by (auto intro!: roundHalfEven_nonneg)
  have M0: "0 \<le> M" unfolding M_def using m0 by simp
  have d: "dbl x = (if p = 0 then 0 else of_int (sgn p) * M)"
    by (simp add: dbl_def pq Let_def M_def m_def s_def e_def k_def a_def)
  show ?thesis
    unfolding d sx using M0
    by (auto simp add: zero_le_mult_iff mult_le_0_iff sgn_if)
qed

lemma dbl_nonneg: "0 \<le> x \<Longrightarrow> 0 \<le> dbl x"
  using dbl_sign by blast

lemma dbl_nonpos: "x \<le> 0 \<Longrightarrow> dbl x \<le> 0"
  using dbl_sign by blast

text \<open>
  Values of the rounding: the doubles 0.1, \<open>0.4 + 0.2\<close> and \<open>2 * 0.3\<close>, which differ
  in the last place, and two integers halfway between doubles, which go to the even
  significand.
\<close>

lemma dbl_examples:
  "dbl (1 / 10) = 3602879701896397 / 36028797018963968"
  "dadd (dbl (4 / 10)) (dbl (2 / 10)) = 1351079888211149 / 2251799813685248"
  "dmul 2 (dbl (3 / 10)) = 5404319552844595 / 9007199254740992"
  "dbl 9007199254740993 = 9007199254740992"
  "dbl 9007199254740995 = 9007199254740996"
  by code_simp+

lemma typeScore_range: "0 \<le> typeScore text context t \<and> typeScore text context t \<le> 1"
  by (simp add: typeScore_def calculateTypeScore_def Let_def)

lemma typeScore_no_signal:
  assumes "keywordMatches (normalizeText text) (ck_primary (CLASSIFICATION_RULES t)) = 0"
    and "keywordMatches (normalizeText text) (ck_secondary (CLASSIFICATION_RULES t)) = 0"
    and "patternMatches (normalizeText text) (ck_patterns (CLASSIFICATION_RULES t)) = 0"
    and "firstCompany (normalizeText text) (ck_companies (CLASSIFICATION_RULES t)) = None"
    and "case context of None \<Rightarrow> True
         | Some c \<Rightarrow> calculateContextBoost (CLASSIFICATION_RULES t) c = 0"
  shows "calculateTypeScore (normalizeText text) (CLASSIFICATION_RULES t) context = (0, None)"
proof -
  let ?n = "dmul (of_nat (keywordMatches (normalizeText text)
                  (ck_negativeKeywords (CLASSIFICATION_RULES t)))) (dbl (3 / 10))"
  have "0 \<le> dbl (3 / 10)" by (rule dbl_nonneg) simp
  then have "0 \<le> ?n" unfolding dmul_def by (intro dbl_nonneg mult_nonneg_nonneg) simp_all
  then have d: "dsub 0 ?n \<le> 0" unfolding dsub_def by (intro dbl_nonpos) simp
  then have "dadd (dsub 0 ?n) 0 \<le> 0" unfolding dadd_def by (intro dbl_nonpos) simp
  with d show ?thesis
    using assms
    by (simp add: calculateTypeScore_def Let_def dadd_def dmul_def split: option.splits)
qed

text \<open>
  The arithmetic on the counts that occur in the texts evaluated below. In doubles
  \<open>0.4 - 0.3\<close> is 1801439850948199 / 2^54, \<open>0.4 + 0.2\<close> is 1351079888211149 / 2^51
  and \<open>2 * 0.3\<close> is 5404319552844595 / 2^53, one unit in the last place below it.
\<close>

lemma score_no_positive_signal:
  "scoreFromCounts (0, 0, 0, None, n) None = (0, None)"
proof -
  have "0 \<le> dbl (3 / 10)" by (rule dbl_nonneg) simp
  then have "0 \<le> dmul (of_nat n) (dbl (3 / 10))"
    unfolding dmul_def by (intro dbl_nonneg mult_nonneg_nonneg) simp_all
  then have "dsub 0 (dmul (of_nat n) (dbl (3 / 10))) \<le> 0"
    unfolding dsub_def by (intro dbl_nonpos) simp
  then show ?thesis
    by (simp add: scoreFromCounts_def Let_def dadd_def dmul_def)
qed

lemma score_values:
  "scoreFromCounts (1, 0, 0, None, 1) None = (1801439850948199 / 18014398509481984, None)"
  "scoreFromCounts (1, 0, 0, None, 0) None = (3602879701896397 / 9007199254740992, None)"
  "scoreFromCounts (1, 1, 0, None, 0) None = (1351079888211149 / 2251799813685248, None)"
  "scoreFromCounts (0, 0, 2, None, 0) None = (5404319552844595 / 9007199254740992, None)"
  "scoreFromCounts (0, 0, 0, None, 1) (Some 0) = (0, None)"
  "scoreFromCounts (0, 0, 0, None, 0) (Some 0) = (0, None)"
  by code_simp+

lemma score_values_boosted:
  assumes "b = 3602879701896397 / 18014398509481984"
  shows "scoreFromCounts (1, 0, 0, None, 0) (Some b) = (1351079888211149 / 2251799813685248, None)"
    and "scoreFromCounts (0, 0, 0, None, 1) (Some b) = (0, None)"
  unfolding assms by code_simp+

lemma water_gas_counts:
  "map (\<lambda>t. signalCounts (normalizeText (S ''water gas'')) (CLASSIFICATION_RULES t))
       InvoiceType_entries
   = [(0, 0, 0, None, 2), (1, 0, 0, None, 1), (1, 0, 0, None, 1), (0, 0, 0, None, 0),
      (0, 0, 0, None, 0), (0, 0, 0, None, 0), (0, 0, 0, None, 0), (0, 0, 0, None, 0),
      (0, 0, 0, None, 0), (0, 0, 0, None, 0)]"
  by code_simp

lemma water_gas_results:
  "map (\<lambda>t. calculateTypeScore (normalizeText (S ''water gas'')) (CLASSIFICATION_RULES t) None)
       InvoiceType_entries
   = [(0, None), (1801439850948199 / 18014398509481984, None), (1801439850948199 / 18014398509481984, None), (0, None), (0, None), (0, None), (0, None),
      (0, None), (0, None), (0, None)]"
  using water_gas_counts score_values score_no_positive_signal
  by (simp add: calculateTypeScore_counts InvoiceType_entries_def)

lemma lease_counts:
  "map (\<lambda>t. signalCounts (normalizeText (S ''lease deposit american express kredikart''))
              (CLASSIFICATION_RULES t)) InvoiceType_entries
   = [(0, 0, 0, None, 0), (0, 0, 0, None, 0), (0, 0, 0, None, 0), (0, 0, 0, None, 1),
      (0, 0, 0, None, 0), (0, 0, 0, None, 0), (0, 0, 0, None, 0), (1, 1, 0, None, 0),
      (0, 0, 2, None, 0), (0, 0, 0, None, 0)]"
  by code_simp

lemma lease_results:
  "map (\<lambda>t. calculateTypeScore (normalizeText (S ''lease deposit american express kredikart''))
              (CLASSIFICATION_RULES t) None) InvoiceType_entries
   = [(0, None), (0, None), (0, None), (0, None), (0, None), (0, None), (0, None),
      (1351079888211149 / 2251799813685248, None), (5404319552844595 / 9007199254740992, None), (0, None)]"
  using lease_counts score_values score_no_positive_signal
  by (simp add: calculateTypeScore_counts InvoiceType_entries_def)

lemma tedas_counts:
  "map (\<lambda>t. signalCounts (normalizeText (S ''elektrik t'' @ 252 # S ''ketimi TEDA'' @ [350])) (CLASSIFICATION_RULES t)) InvoiceType_entries
   = [(1, 0, 0, None, 0), (0, 0, 0, None, 1), (0, 0, 0, None, 1), (0, 0, 0, None, 1),
      (0, 0, 0, None, 1), (0, 0, 0, None, 1), (0, 0, 0, None, 1), (0, 0, 0, None, 1),
      (0, 0, 0, None, 1), (0, 0, 0, None, 0)]"
  by code_simp

lemma TR_boosts:
  "map (\<lambda>t. calculateContextBoost (CLASSIFICATION_RULES t)
              \<lparr>ctx_currency = Some TRY, ctx_country = Some TR, ctx_companyHint = None,
                    ctx_amountHint = Some 500\<rparr>) InvoiceType_entries
   = [3602879701896397 / 18014398509481984, 3602879701896397 / 18014398509481984, 3602879701896397 / 18014398509481984, 3602879701896397 / 18014398509481984, 3602879701896397 / 18014398509481984, 0, 0, 0, 0, 0]"
  by code_simp

lemma tedas_results:
  "map (\<lambda>t. calculateTypeScore (normalizeText (S ''elektrik t'' @ 252 # S ''ketimi TEDA'' @ [350])) (CLASSIFICATION_RULES t) None)
       InvoiceType_entries
   = [(3602879701896397 / 9007199254740992, None), (0, None), (0, None), (0, None), (0, None), (0, None), (0, None),
      (0, None), (0, None), (0, None)]"
  using tedas_counts score_values score_no_positive_signal
  by (simp add: calculateTypeScore_counts InvoiceType_entries_def)

lemma tedas_results_TR:
  "map (\<lambda>t. calculateTypeScore (normalizeText (S ''elektrik t'' @ 252 # S ''ketimi TEDA'' @ [350])) (CLASSIFICATION_RULES t)
              (Some \<lparr>ctx_currency = Some TRY, ctx_country = Some TR, ctx_companyHint = None,
                    ctx_amountHint = Some 500\<rparr>)) InvoiceType_entries
   = [(1351079888211149 / 2251799813685248, None), (0, None), (0, None), (0, None), (0, None), (0, None), (0, None),
      (0, None), (0, None), (0, None)]"
  using tedas_counts TR_boosts score_values score_values_boosted
  by (simp add: calculateTypeScore_counts InvoiceType_entries_def)

text \<open>
  Claim C1 as stated fails in its tie rule: the \<open>reduce\<close> keeps the accumulated entry
  only when its score is strictly greater, so among equal maxima the entry met last
  wins. On the text \<open>water gas\<close> WATER and GAS both score \<open>0.4 - 0.3\<close> (a primary
  keyword of the one is a negative keyword of the other), every other type scores 0, and
  the result is GAS, the later of the two.
\<close>

theorem classifyBill_tie_counterexample:
  "typeScore (S ''water gas'') None WATER = 1801439850948199 / 18014398509481984
   \<and> typeScore (S ''water gas'') None GAS = 1801439850948199 / 18014398509481984
   \<and> declIndex WATER < declIndex GAS
   \<and> r_type (classifyBill (S ''water gas'') None) = GAS
   \<and> r_type (classifyBill (S ''water gas'') None) \<noteq> WATER"
proof -
  have t: "r_type (classifyBill (S ''water gas'') None) = GAS"
    unfolding classifyBill_unfold water_gas_results
    by (simp add: InvoiceType_entries_def pickBest_def betterCompany_def Let_def)
  have s: "typeScore (S ''water gas'') None WATER = 1801439850948199 / 18014398509481984"
    "typeScore (S ''water gas'') None GAS = 1801439850948199 / 18014398509481984"
    using water_gas_results by (simp_all add: InvoiceType_entries_def typeScore_def)
  show ?thesis using t s by (simp add: declIndex_def)
qed

text \<open>
  Claim C1, amended. For every text and context the selected type has the highest final
  score, the confidence is that score, and among the types whose scores, as the doubles
  the program computes, tie at the maximum the one declared last in the enumeration order
  is selected.
\<close>

theorem classifyBill_selects_last_maximum:
  "(\<forall>t. typeScore text context t \<le> typeScore text context (r_type (classifyBill text context)))
   \<and> (\<forall>t. typeScore text context t = typeScore text context (r_type (classifyBill text context))
          \<longrightarrow> declIndex t \<le> declIndex (r_type (classifyBill text context)))
   \<and> r_confidence (classifyBill text context)
       = typeScore text context (r_type (classifyBill text context))"
  using classifyBill_best [of "text" "context"] by auto

text \<open>
  The theorem at \<open>water gas\<close>, where WATER ties with the selected GAS and is declared
  before it; and at a text where rounding separates two scores that are equal as
  decimals: RENT scores \<open>0.4 + 0.2\<close>, CREDIT_CARD \<open>2 * 0.3\<close>, the first is the greater
  double, and RENT is selected although CREDIT_CARD is declared later.
\<close>

theorem classifyBill_selects_last_maximum_witness:
  "typeScore (S ''water gas'') None WATER
     = typeScore (S ''water gas'') None (r_type (classifyBill (S ''water gas'') None))
   \<and> declIndex WATER \<le> declIndex (r_type (classifyBill (S ''water gas'') None))
   \<and> typeScore (S ''water gas'') None ELECTRICITY
     \<le> typeScore (S ''water gas'') None (r_type (classifyBill (S ''water gas'') None))
   \<and> r_type (classifyBill (S ''lease deposit american express kredikart'') None) = RENT
   \<and> typeScore (S ''lease deposit american express kredikart'') None CREDIT_CARD < typeScore (S ''lease deposit american express kredikart'') None RENT
   \<and> typeScore (S ''lease deposit american express kredikart'') None CREDIT_CARD
     \<le> typeScore (S ''lease deposit american express kredikart'') None (r_type (classifyBill (S ''lease deposit american express kredikart'') None))"
proof -
  have t: "r_type (classifyBill (S ''water gas'') None) = GAS"
    unfolding classifyBill_unfold water_gas_results
    by (simp add: InvoiceType_entries_def pickBest_def betterCompany_def Let_def)
  have s: "typeScore (S ''water gas'') None WATER = typeScore (S ''water gas'') None GAS"
    using water_gas_results by (simp add: InvoiceType_entries_def typeScore_def)
  have l: "r_type (classifyBill (S ''lease deposit american express kredikart'') None) = RENT"
    unfolding classifyBill_unfold lease_results
    by (simp add: InvoiceType_entries_def pickBest_def betterCompany_def Let_def)
  have ls: "typeScore (S ''lease deposit american express kredikart'') None CREDIT_CARD < typeScore (S ''lease deposit american express kredikart'') None RENT"
    using lease_results by (simp add: InvoiceType_entries_def typeScore_def)
  show ?thesis
    using classifyBill_selects_last_maximum [of "S ''water gas''" None]
      classifyBill_selects_last_maximum [of "S ''lease deposit american express kredikart''" None] s l ls
    unfolding t by blast
qed

text \<open>
  Claim C3 at the text that consists of the two phrases of the claim, the words
  \<open>elektrik\<close>, \<open>t\u00FCketimi\<close> and \<open>TEDA\u015E\<close> with one space between them (252 is
  the u with diaeresis, 350 the capital S with cedilla). Normalisation turns the two
  letters beyond ASCII into spaces, so of the rules of ELECTRICITY only the primary
  keyword \<open>elektrik\<close> matches: the type is ELECTRICITY with the confidence 0.4 (the
  double \<open>0.4 + 0.2\<close>, just above 0.6, with the currency TRY and the country TR as
  context), below 0.9, and no company. \<open>extractCompanyName\<close> finds no known company
  either and falls back to the longest run of capitals, with confidence 0.7; a longer run
  of capitals in the text replaces the company.
\<close>

theorem classifyBill_tedas:
  "normalizeText (S ''elektrik t'' @ 252 # S ''ketimi TEDA'' @ [350]) = S ''elektrik t ketimi teda''
   \<and> classifyBill (S ''elektrik t'' @ 252 # S ''ketimi TEDA'' @ [350]) None
     = \<lparr>r_type = ELECTRICITY, r_confidence = dbl (4 / 10), r_companyName = None,
        r_companyConfidence = None\<rparr>
   \<and> dbl (4 / 10) = 3602879701896397 / 9007199254740992
   \<and> r_confidence (classifyBill (S ''elektrik t'' @ 252 # S ''ketimi TEDA'' @ [350]) None) < 9 / 10
   \<and> classifyBill (S ''elektrik t'' @ 252 # S ''ketimi TEDA'' @ [350])
         (Some \<lparr>ctx_currency = Some TRY, ctx_country = Some TR, ctx_companyHint = None,
                 ctx_amountHint = Some 500\<rparr>)
     = \<lparr>r_type = ELECTRICITY, r_confidence = 1351079888211149 / 2251799813685248, r_companyName = None,
        r_companyConfidence = None\<rparr>
   \<and> r_confidence (classifyBill (S ''elektrik t'' @ 252 # S ''ketimi TEDA'' @ [350])
         (Some \<lparr>ctx_currency = Some TRY, ctx_country = Some TR, ctx_companyHint = None,
                 ctx_amountHint = Some 500\<rparr>)) < 9 / 10
   \<and> extractCompanyName (S ''elektrik t'' @ 252 # S ''ketimi TEDA'' @ [350]) (Some ELECTRICITY)
     = Some \<lparr>cm_name = S ''TEDA'' @ [350], cm_confidence = 7 / 10\<rparr>
   \<and> extractCompanyName (S ''ELEKTRIK FATURASI elektrik t'' @ 252 # S ''ketimi TEDA'' @ [350])
         (Some ELECTRICITY)
     = Some \<lparr>cm_name = S ''ELEKTRIK FATURASI'', cm_confidence = 7 / 10\<rparr>"
proof -
  have n: "normalizeText (S ''elektrik t'' @ 252 # S ''ketimi TEDA'' @ [350]) = S ''elektrik t ketimi teda''"
    by code_simp
  have d: "dbl (4 / 10) = 3602879701896397 / 9007199254740992"
    by code_simp
  have c1: "classifyBill (S ''elektrik t'' @ 252 # S ''ketimi TEDA'' @ [350]) None
     = \<lparr>r_type = ELECTRICITY, r_confidence = 3602879701896397 / 9007199254740992, r_companyName = None,
        r_companyConfidence = None\<rparr>"
    unfolding classifyBill_unfold tedas_results
    by (simp add: InvoiceType_entries_def pickBest_def betterCompany_def Let_def)
  have c2: "classifyBill (S ''elektrik t'' @ 252 # S ''ketimi TEDA'' @ [350])
         (Some \<lparr>ctx_currency = Some TRY, ctx_country = Some TR, ctx_companyHint = None,
                 ctx_amountHint = Some 500\<rparr>)
     = \<lparr>r_type = ELECTRICITY, r_confidence = 1351079888211149 / 2251799813685248, r_companyName = None,
        r_companyConfidence = None\<rparr>"
    unfolding classifyBill_unfold tedas_results_TR
    by (simp add: InvoiceType_entries_def pickBest_def betterCompany_def Let_def)
  have e1: "extractCompanyName (S ''elektrik t'' @ 252 # S ''ketimi TEDA'' @ [350]) (Some ELECTRICITY)
     = Some \<lparr>cm_name = S ''TEDA'' @ [350], cm_confidence = 7 / 10\<rparr>"
    by code_simp
  have e2: "extractCompanyName (S ''ELEKTRIK FATURASI elektrik t'' @ 252 # S ''ketimi TEDA'' @ [350])
         (Some ELECTRICITY)
     = Some \<lparr>cm_name = S ''ELEKTRIK FATURASI'', cm_confidence = 7 / 10\<rparr>"
    by code_simp
  have l1: "r_confidence (classifyBill (S ''elektrik t'' @ 252 # S ''ketimi TEDA'' @ [350]) None) < 9 / 10"
    unfolding c1 by simp
  have l2: "r_confidence (classifyBill (S ''elektrik t'' @ 252 # S ''ketimi TEDA'' @ [350])
         (Some \<lparr>ctx_currency = Some TRY, ctx_country = Some TR, ctx_companyHint = None,
                 ctx_amountHint = Some 500\<rparr>)) < 9 / 10"
    unfolding c2 by simp
  show ?thesis using n d c1 c2 e1 e2 l1 l2 by simp
qed

lemma foldl_betterCompany_None: "foldl betterCompany None (replicate n None) = None"
  by (induction n) (simp_all add: betterCompany_def)

lemma noSignal_result:
  "noSignal text context t \<Longrightarrow>
     calculateTypeScore (normalizeText text) (CLASSIFICATION_RULES t) context = (0, None)"
  unfolding noSignal_def using typeScore_no_signal by blast

text \<open>
  Claim C9. \<open>classifyBill\<close> is a total function with no error result, and its
  confidence always lies between 0 and 1; when no keyword, pattern or company of any
  type matches the text and the context adds no boost, the result is UNKNOWN with
  confidence 0 and no company.
\<close>

theorem classifyBill_no_signal_unknown:
  "(0 \<le> r_confidence (classifyBill text context) \<and> r_confidence (classifyBill text context) \<le> 1)
   \<and> ((\<forall>t. noSignal text context t) \<longrightarrow>
        classifyBill text context
          = \<lparr>r_type = UNKNOWN, r_confidence = 0, r_companyName = None,
             r_companyConfidence = None\<rparr>)"
proof (intro conjI impI)
  from classifyBill_best [of "text" "context"] obtain b where
    b: "r_type (classifyBill text context) = b"
       "r_confidence (classifyBill text context) = typeScore text context b"
    by auto
  show "0 \<le> r_confidence (classifyBill text context)"
    unfolding b using typeScore_range by blast
  show "r_confidence (classifyBill text context) \<le> 1"
    unfolding b using typeScore_range by blast
next
  assume a: "\<forall>t. noSignal text context t"
  then have r: "\<And>t. calculateTypeScore (normalizeText text) (CLASSIFICATION_RULES t) context = (0, None)"
    using noSignal_result by blast
  have rs: "map (\<lambda>t. calculateTypeScore (normalizeText text) (CLASSIFICATION_RULES t) context)
              InvoiceType_entries = replicate 10 (0, None)"
    by (simp add: r InvoiceType_entries_def numeral_eq_Suc)
  show "classifyBill text context
          = \<lparr>r_type = UNKNOWN, r_confidence = 0, r_companyName = None,
             r_companyConfidence = None\<rparr>"
    unfolding classifyBill_unfold rs
    by (simp add: InvoiceType_entries_def pickBest_def betterCompany_def Let_def numeral_eq_Suc)
qed

lemma hello_no_signal:
  "list_all (noSignal (S ''hello world'') None) InvoiceType_entries"
  "list_all (noSignal (S ''hello world'')
               (Some \<lparr>ctx_currency = Some USD, ctx_country = Some FR, ctx_companyHint = None,
                       ctx_amountHint = Some 500\<rparr>)) InvoiceType_entries"
  by code_simp+

theorem classifyBill_no_signal_unknown_witness:
  "(\<forall>t. noSignal (S ''hello world'') None t)
   \<and> classifyBill (S ''hello world'') None
       = \<lparr>r_type = UNKNOWN, r_confidence = 0, r_companyName = None, r_companyConfidence = None\<rparr>
   \<and> classifyBill (S ''hello world'')
         (Some \<lparr>ctx_currency = Some USD, ctx_country = Some FR, ctx_companyHint = None,
                 ctx_amountHint = Some 500\<rparr>)
       = \<lparr>r_type = UNKNOWN, r_confidence = 0, r_companyName = None, r_companyConfidence = None\<rparr>"
proof -
  have h: "\<forall>t. noSignal (S ''hello world'') None t"
    using hello_no_signal(1) InvoiceType_entries_all by (auto simp add: list_all_iff)
  have k: "\<forall>t. noSignal (S ''hello world'')
               (Some \<lparr>ctx_currency = Some USD, ctx_country = Some FR, ctx_companyHint = None,
                       ctx_amountHint = Some 500\<rparr>) t"
    using hello_no_signal(2) InvoiceType_entries_all by (auto simp add: list_all_iff)
  from h k
    classifyBill_no_signal_unknown [of "S ''hello world''" None]
    classifyBill_no_signal_unknown [of "S ''hello world''"
      "Some \<lparr>ctx_currency = Some USD, ctx_country = Some FR, ctx_companyHint = None,
              ctx_amountHint = Some 500\<rparr>"]
  show ?thesis by blast
qed

end
